theory Spec2Isabelle
  imports Main "HOL-Library.Word" "HOL-Library.Signed_Division"
begin

section \<open>The SQL semantic analyzer of Parser/ParserNode.cpp\<close>

text \<open>
  The parse-tree classes of namespace \<open>Parser\<close> and the analyzed classes of namespace
  \<open>Analyzer\<close> are datatypes; \<open>analyze\<close> and \<open>execute\<close> are functions that return either
  the error thrown or the value produced together with the updated query.  Every
  \<open>throw std::runtime_error\<close> of the source is one \<open>Inl\<close> branch that keeps the
  message of the source; the constructor of the error is the error kind of the
  specification (section 7).  Dereferencing a null pointer, reading a variable that
  was never assigned and a failing \<open>assert\<close> are error values of their own.
\<close>

subsection \<open>Errors\<close>

datatype error =
    NameError string
  | AmbiguityError string
  | TypeError string
  | ArgError string
  | ExistsError string
  | MissingError string
  | NotSupported string
  | PermissionError string
  | InternalError string
  | NullPointerDereference
  | UninitializedRead
  | AssertionFailed

subsection \<open>SQL types (sqltypes.h)\<close>

datatype SQLTypes =
    kBOOLEAN | kCHAR | kVARCHAR | kTEXT | kNUMERIC | kDECIMAL | kSMALLINT | kINT
  | kBIGINT | kFLOAT | kDOUBLE | kTIME | kTIMESTAMP | kNULLT

datatype SQLOps =
    kEQ | kNE | kLT | kGT | kLE | kGE | kAND | kOR | kNOT | kMINUS | kPLUS
  | kMULTIPLY | kDIVIDE | kUMINUS | kISNULL | kCAST

datatype SQLQualifier = kONE | kANY | kALL

datatype SQLAgg = kAVG | kMIN | kMAX | kSUM | kCOUNT

datatype SQLStmtType = kSELECT | kUPDATE | kINSERT | kDELETE

datatype EncodingType =
    kENCODING_NONE | kENCODING_FIXED | kENCODING_RL | kENCODING_DIFF
  | kENCODING_DICT | kENCODING_SPARSE

datatype StorageOption = kDISK | kGPU | kCPU

datatype ViewRefreshOption = kMANUAL | kAUTO | kIMMEDIATE

datatype PartitionerType = INSERT_ORDER

text \<open>\<open>SQLTypeInfo\<close>: two values are equal iff all four fields are.\<close>

record SQLTypeInfo =
  type :: SQLTypes
  dimension :: int
  scale :: int
  notnull :: bool

text \<open>The surface type of a column definition or a CAST.\<close>

record SQLType =
  get_type :: SQLTypes
  get_param1 :: int
  get_param2 :: int

definition IS_STRING :: "SQLTypes \<Rightarrow> bool" where
  "IS_STRING t = (t = kTEXT \<or> t = kVARCHAR \<or> t = kCHAR)"

definition IS_NUMBER :: "SQLTypes \<Rightarrow> bool" where
  "IS_NUMBER t = (t = kINT \<or> t = kSMALLINT \<or> t = kDOUBLE \<or> t = kFLOAT
                   \<or> t = kBIGINT \<or> t = kNUMERIC \<or> t = kDECIMAL)"

text \<open>
  The union \<open>Datum\<close>: the member that the source writes.  Floating values are carried
  as their bit patterns, which analysis only copies.
\<close>

datatype Datum =
    smallintval "16 word"
  | intval "32 word"
  | bigintval "64 word"
  | floatval "32 word"
  | doubleval "64 word"
  | pointerval "string option"

subsection \<open>Catalog descriptors\<close>

record TableDescriptor =
  tableId :: int
  tableName :: string
  nColumns :: nat
  isView :: bool
  isMaterialized :: bool
  viewSQL :: string
  checkOption :: bool
  storageOption :: StorageOption
  refreshOption :: ViewRefreshOption
  isReady :: bool
  partitioner :: "unit option"
  fragType :: PartitionerType
  maxFragRows :: int
  fragPageSize :: int

record ColumnDescriptor =
  columnId :: int
  columnName :: string
  columnType :: SQLTypeInfo
  compression :: EncodingType
  comp_param :: int

subsection \<open>The analyzed expression tree (namespace Analyzer)\<close>

text \<open>
  Every analyzed node carries the \<open>type_info\<close> of its base class.  The constructors
  whose names clash with those of the parse tree carry the suffix \<open>A\<close>.
\<close>

datatype Analyzer_Expr =
    Constant SQLTypeInfo bool Datum
  | ColumnVar SQLTypeInfo int int int EncodingType int
  | UOper SQLTypeInfo SQLOps Analyzer_Expr
  | BinOper SQLTypeInfo SQLOps SQLQualifier Analyzer_Expr Analyzer_Expr
  | InValuesA SQLTypeInfo Analyzer_Expr "Analyzer_Expr list"
  | LikeExprA SQLTypeInfo Analyzer_Expr Analyzer_Expr "Analyzer_Expr option"
  | AggExpr SQLTypeInfo SQLAgg "Analyzer_Expr option" bool
  | CaseExprA SQLTypeInfo "(Analyzer_Expr \<times> Analyzer_Expr) list" "Analyzer_Expr option"

fun get_type_info :: "Analyzer_Expr \<Rightarrow> SQLTypeInfo" where
  "get_type_info (Constant ti _ _) = ti"
| "get_type_info (ColumnVar ti _ _ _ _ _) = ti"
| "get_type_info (UOper ti _ _) = ti"
| "get_type_info (BinOper ti _ _ _ _) = ti"
| "get_type_info (InValuesA ti _ _) = ti"
| "get_type_info (LikeExprA ti _ _ _) = ti"
| "get_type_info (AggExpr ti _ _ _) = ti"
| "get_type_info (CaseExprA ti _ _) = ti"

fun set_type_info :: "Analyzer_Expr \<Rightarrow> SQLTypeInfo \<Rightarrow> Analyzer_Expr" where
  "set_type_info (Constant _ n d) ti = Constant ti n d"
| "set_type_info (ColumnVar _ t c r e p) ti = ColumnVar ti t c r e p"
| "set_type_info (UOper _ oper a) ti = UOper ti oper a"
| "set_type_info (BinOper _ oper q l r) ti = BinOper ti oper q l r"
| "set_type_info (InValuesA _ a vs) ti = InValuesA ti a vs"
| "set_type_info (LikeExprA _ a l e) ti = LikeExprA ti a l e"
| "set_type_info (AggExpr _ g a d) ti = AggExpr ti g a d"
| "set_type_info (CaseExprA _ ps e) ti = CaseExprA ti ps e"

text \<open>
  \<open>deep_copy\<close> yields an independent subtree equal to its receiver.  Values of a
  datatype share nothing, so the copy is the value itself.
\<close>

definition deep_copy :: "Analyzer_Expr \<Rightarrow> Analyzer_Expr" where
  "deep_copy e = e"

subsection \<open>The analyzed query (Analyzer::Query)\<close>

record RangeTblEntry =
  rangevar :: string
  table_desc :: TableDescriptor

definition get_table_id :: "RangeTblEntry \<Rightarrow> int" where
  "get_table_id rte = tableId (table_desc rte)"

record TargetEntry =
  resname :: string
  expr :: Analyzer_Expr

record OrderEntry =
  tle_no :: int
  is_desc :: bool
  nulls_first :: bool

record QueryFields =
  is_distinct :: bool
  targetlist :: "TargetEntry list"
  rangetable :: "RangeTblEntry list"
  where_predicate :: "Analyzer_Expr option"
  group_by :: "Analyzer_Expr list option"
  having_predicate :: "Analyzer_Expr option"
  order_by :: "OrderEntry list option"
  is_unionall :: bool
  stmt_type :: SQLStmtType
  num_aggs :: int
  result_table_id :: int
  result_col_list :: "int list"
  limit :: int
  offset :: int

text \<open>
  A query owns the query that \<open>UNION\<close> links to it.  \<open>num_aggs\<close> counts the aggregate
  calls of one statement and is an unbounded integer here: the \<open>int\<close> of the source
  does not overflow before a statement holds \<open>2^31\<close> aggregates.
\<close>

datatype Query = Query (fields: QueryFields) (next_query: "Query option")

definition upd :: "(QueryFields \<Rightarrow> QueryFields) \<Rightarrow> Query \<Rightarrow> Query" where
  "upd f q = Query (f (fields q)) (next_query q)"

definition set_next_query :: "Query \<Rightarrow> Query \<Rightarrow> Query" where
  "set_next_query nq q = Query (fields q) (Some nq)"

definition get_num_aggs :: "Query \<Rightarrow> int" where
  "get_num_aggs q = num_aggs (fields q)"

definition set_num_aggs :: "int \<Rightarrow> Query \<Rightarrow> Query" where
  "set_num_aggs n = upd (\<lambda>f. f\<lparr>num_aggs := n\<rparr>)"

definition get_rangetable :: "Query \<Rightarrow> RangeTblEntry list" where
  "get_rangetable q = rangetable (fields q)"

definition get_targetlist :: "Query \<Rightarrow> TargetEntry list" where
  "get_targetlist q = targetlist (fields q)"

definition get_group_by :: "Query \<Rightarrow> Analyzer_Expr list option" where
  "get_group_by q = group_by (fields q)"

definition get_order_by :: "Query \<Rightarrow> OrderEntry list option" where
  "get_order_by q = order_by (fields q)"

definition add_rte :: "RangeTblEntry \<Rightarrow> Query \<Rightarrow> Query" where
  "add_rte rte = upd (\<lambda>f. f\<lparr>rangetable := rangetable f @ [rte]\<rparr>)"

text \<open>
  Modelled from the spec: \<open>Query::get_rte_idx\<close> is defined in Analyzer.cpp.  The
  specification has it look a range variable up by name; the analyzer treats a negative
  result as unknown.  The index is that of the first entry with the name.
\<close>

fun rte_idx_from :: "int \<Rightarrow> RangeTblEntry list \<Rightarrow> string \<Rightarrow> int" where
  "rte_idx_from i [] name = -1"
| "rte_idx_from i (rte # rtes) name =
     (if rangevar rte = name then i else rte_idx_from (i + 1) rtes name)"

definition get_rte_idx :: "Query \<Rightarrow> string \<Rightarrow> int" where
  "get_rte_idx q name = rte_idx_from 0 (get_rangetable q) name"

definition get_rte :: "Query \<Rightarrow> int \<Rightarrow> RangeTblEntry" where
  "get_rte q i = get_rangetable q ! nat i"

subsection \<open>The catalog and the members of the analyzer that this file calls\<close>

record Catalog =
  currentDB_dbName :: string
  currentUser_userId :: int
  getMetadataForTable :: "string \<Rightarrow> TableDescriptor option"
  getMetadataForColumn :: "int \<Rightarrow> string \<Rightarrow> ColumnDescriptor option"
  getMetadataForColumnId :: "int \<Rightarrow> int \<Rightarrow> ColumnDescriptor option"
  getMetadataForUser :: "string \<Rightarrow> int option"

text \<open>
  ParserNode.cpp calls functions and reads constants that other files of the repository
  define (Analyzer.cpp, sqltypes.h, Catalog.h, the C++ library).  They are the fields
  of one record that every function of the model takes as its first argument, so each
  theorem holds for every implementation of them.
  \<^item> \<open>analyze_type_info\<close> is \<open>BinOper::analyze_type_info\<close>: it throws or returns the
    result type and the two operand types after promotion;
  \<^item> \<open>add_cast\<close> returns the expression that the call returns together with the
    receiver as the call leaves it, because the cast of a \<open>Constant\<close> rewrites the
    literal in place;
  \<^item> \<open>default_type_info\<close>, \<open>default_cd\<close>, \<open>default_td\<close> and \<open>new_Query\<close> are the
    values of default-constructed objects, whose fields the source then assigns;
  \<^item> \<open>stoll\<close> is \<open>std::stoll\<close>.
\<close>

record externals =
  analyze_type_info ::
    "SQLOps \<Rightarrow> SQLTypeInfo \<Rightarrow> SQLTypeInfo \<Rightarrow> error + (SQLTypeInfo \<times> SQLTypeInfo \<times> SQLTypeInfo)"
  common_string_type :: "SQLTypeInfo \<Rightarrow> SQLTypeInfo \<Rightarrow> SQLTypeInfo"
  common_numeric_type :: "SQLTypeInfo \<Rightarrow> SQLTypeInfo \<Rightarrow> SQLTypeInfo"
  add_cast :: "Analyzer_Expr \<Rightarrow> SQLTypeInfo \<Rightarrow> Analyzer_Expr \<times> Analyzer_Expr"
  get_column_desc :: "Catalog \<Rightarrow> RangeTblEntry \<Rightarrow> string \<Rightarrow> ColumnDescriptor option"
  expand_star_in_targetlist :: "Catalog \<Rightarrow> RangeTblEntry \<Rightarrow> int \<Rightarrow> TargetEntry list"
  check_group_by :: "Analyzer_Expr \<Rightarrow> Analyzer_Expr list option \<Rightarrow> error option"
  default_type_info :: SQLTypeInfo
  default_cd :: ColumnDescriptor
  default_td :: TableDescriptor
  new_Query :: Query
  stoll :: "string \<Rightarrow> error + 64 word"
  MAPD_SYSTEM_DB :: string
  DEFAULT_FRAGMENT_SIZE :: int
  DEFAULT_PAGE_SIZE :: int

text \<open>
  A node built from a bare type tag, as in \<open>new Analyzer::Constant(kFLOAT, false, d)\<close>,
  or a local \<open>SQLTypeInfo\<close> of which only \<open>type\<close> is assigned.
\<close>

definition ti_of :: "externals \<Rightarrow> SQLTypes \<Rightarrow> SQLTypeInfo" where
  "ti_of X t = (default_type_info X)\<lparr>type := t\<rparr>"

definition cast_to :: "externals \<Rightarrow> Analyzer_Expr \<Rightarrow> SQLTypeInfo \<Rightarrow> Analyzer_Expr" where
  "cast_to X e ti = fst (add_cast X e ti)"

definition after_cast :: "externals \<Rightarrow> Analyzer_Expr \<Rightarrow> SQLTypeInfo \<Rightarrow> Analyzer_Expr" where
  "after_cast X e ti = snd (add_cast X e ti)"

text \<open>
  \<open>boost::iequals\<close> compares two strings character by character after mapping each
  to upper case; the specification fixes the mapping as that of ASCII.
\<close>

definition to_upper :: "char \<Rightarrow> char" where
  "to_upper c =
     (let n = (of_char c :: nat) in if 97 \<le> n \<and> n \<le> 122 then char_of (n - 32) else c)"

definition iequals :: "string \<Rightarrow> string \<Rightarrow> bool" where
  "iequals a b = (map to_upper a = map to_upper b)"

subsection \<open>The parse tree of expressions (namespace Parser)\<close>

text \<open>
  \<open>SubqueryExpr\<close>, \<open>InSubquery\<close> and \<open>ExistsExpr\<close> hold a query that analysis never
  reads; it is left out.  A pointer that may be null is an \<open>option\<close>.
\<close>

datatype Parser_Expr =
    NullLiteral
  | StringLiteral string
  | IntLiteral "64 word"
  | FixedPtLiteral string
  | FloatLiteral "32 word"
  | DoubleLiteral "64 word"
  | UserLiteral
  | OperExpr SQLOps Parser_Expr "Parser_Expr option"
  | SubqueryExpr SQLQualifier
  | IsNullExpr bool Parser_Expr
  | InSubquery bool Parser_Expr
  | InValues bool Parser_Expr "Parser_Expr list"
  | BetweenExpr bool Parser_Expr Parser_Expr Parser_Expr
  | LikeExpr bool Parser_Expr Parser_Expr "Parser_Expr option"
  | ExistsExpr
  | ColumnRef "string option" "string option"
  | FunctionRef string bool "Parser_Expr option"
  | CastExpr SQLType Parser_Expr
  | CaseExpr "(Parser_Expr \<times> Parser_Expr) list" "Parser_Expr option"

subsection \<open>Literals\<close>

definition NullLiteral_analyze :: "externals \<Rightarrow> Analyzer_Expr" where
  "NullLiteral_analyze X = Constant (ti_of X kNULLT) True (pointerval None)"

text \<open>\<open>strcpy\<close> copies up to the first NUL character.\<close>

definition StringLiteral_analyze :: "externals \<Rightarrow> string \<Rightarrow> Analyzer_Expr" where
  "StringLiteral_analyze X stringval =
     (let ti = (default_type_info X)
                 \<lparr>type := kVARCHAR, dimension := int (length stringval), scale := 0\<rparr>;
          s = takeWhile (\<lambda>c. c \<noteq> CHR 0x00) stringval
      in Constant ti False (pointerval (Some s)))"

definition INT16_MIN :: int where "INT16_MIN = - (2 ^ 15)"
definition INT16_MAX :: int where "INT16_MAX = 2 ^ 15 - 1"
definition INT32_MIN :: int where "INT32_MIN = - (2 ^ 31)"
definition INT32_MAX :: int where "INT32_MAX = 2 ^ 31 - 1"

text \<open>
  \<open>intval\<close> is an \<open>int64_t\<close>; the casts to \<open>int16_t\<close> and \<open>int32_t\<close> keep the low
  bits.
\<close>

definition IntLiteral_analyze :: "externals \<Rightarrow> 64 word \<Rightarrow> Analyzer_Expr" where
  "IntLiteral_analyze X v =
     (if INT16_MIN \<le> sint v \<and> sint v \<le> INT16_MAX
        then Constant (ti_of X kSMALLINT) False (smallintval (ucast v))
      else if INT32_MIN \<le> sint v \<and> sint v \<le> INT32_MAX
        then Constant (ti_of X kINT) False (intval (ucast v))
      else Constant (ti_of X kBIGINT) False (bigintval v))"

fun find_first_of :: "char \<Rightarrow> string \<Rightarrow> nat option" where
  "find_first_of c [] = None"
| "find_first_of c (x # xs) =
     (if x = c then Some 0 else map_option Suc (find_first_of c xs))"

text \<open>
  The two \<open>assert\<close>s are taken as enabled.  The loop multiplies \<open>bigintval\<close> by ten
  \<open>scale\<close> times; the arithmetic is that of 64-bit words.
\<close>

definition FixedPtLiteral_analyze :: "externals \<Rightarrow> string \<Rightarrow> error + Analyzer_Expr" where
  "FixedPtLiteral_analyze X fixedptval =
     (if \<not> length fixedptval \<le> 20 then Inl AssertionFailed
      else case find_first_of (CHR ''.'') fixedptval of
        None \<Rightarrow> Inl AssertionFailed
      | Some dot \<Rightarrow>
          let before_dot = take dot fixedptval;
              after_dot = drop (dot + 1) fixedptval
          in (case stoll X before_dot of
                Inl e \<Rightarrow> Inl e
              | Inr b \<Rightarrow>
                  (case stoll X after_dot of
                     Inl e \<Rightarrow> Inl e
                   | Inr fraction \<Rightarrow>
                       let sc = int (length after_dot);
                           ti = (default_type_info X)
                                  \<lparr>type := kNUMERIC,
                                   dimension := int (length before_dot) + sc,
                                   scale := sc\<rparr>
                       in Inr (Constant ti False
                                 (bigintval (b * 10 ^ length after_dot + fraction))))))"

definition FloatLiteral_analyze :: "externals \<Rightarrow> 32 word \<Rightarrow> Analyzer_Expr" where
  "FloatLiteral_analyze X v = Constant (ti_of X kFLOAT) False (floatval v)"

definition DoubleLiteral_analyze :: "externals \<Rightarrow> 64 word \<Rightarrow> Analyzer_Expr" where
  "DoubleLiteral_analyze X v = Constant (ti_of X kDOUBLE) False (doubleval v)"

subsection \<open>Column references\<close>

text \<open>
  The loop of the unqualified case.  \<open>found\<close> is \<open>None\<close> while the flag of the source is
  false and holds \<open>rte_idx\<close> and \<open>table_id\<close> once it is true; \<open>cd\<close> is the descriptor
  that the last iteration looked up.  The loop returns both.
\<close>

fun ColumnRef_loop ::
  "externals \<Rightarrow> Catalog \<Rightarrow> string \<Rightarrow> RangeTblEntry list \<Rightarrow> int \<Rightarrow> (int \<times> int) option
     \<Rightarrow> ColumnDescriptor option \<Rightarrow> error + ((int \<times> int) option \<times> ColumnDescriptor option)"
where
  "ColumnRef_loop X cat column [] i found cd = Inr (found, cd)"
| "ColumnRef_loop X cat column (rte # rtes) i found cd0 =
     (let cd = get_column_desc X cat rte column in
      if cd \<noteq> None \<and> found = None
        then ColumnRef_loop X cat column rtes (i + 1) (Some (i, get_table_id rte)) cd
      else if cd \<noteq> None \<and> found \<noteq> None
        then Inl (AmbiguityError (''Column name '' @ column @ '' is ambiguous.''))
      else ColumnRef_loop X cat column rtes (i + 1) found cd)"

text \<open>
  With an empty range table the test after the loop reads \<open>cd\<close>, which was never
  assigned.
\<close>

definition ColumnRef_analyze ::
  "externals \<Rightarrow> Catalog \<Rightarrow> string option \<Rightarrow> string option \<Rightarrow> Query \<Rightarrow> error + Analyzer_Expr"
where
  "ColumnRef_analyze X cat table column q =
     (case column of
        None \<Rightarrow> Inl (NameError ''invalid column name *.'')
      | Some col \<Rightarrow>
          (case table of
             Some t \<Rightarrow>
               (let rte_idx = get_rte_idx q t in
                if rte_idx < 0
                  then Inl (NameError (''range variable or table name '' @ t
                                        @ '' does not exist.''))
                else
                  let rte = get_rte q rte_idx in
                  (case get_column_desc X cat rte col of
                     None \<Rightarrow> Inl (NameError (''Column name '' @ col @ '' does not exist.''))
                   | Some cd \<Rightarrow>
                       Inr (ColumnVar (columnType cd) (get_table_id rte) (columnId cd)
                              rte_idx (compression cd) (comp_param cd))))
           | None \<Rightarrow>
               (if get_rangetable q = [] then Inl UninitializedRead
                else case ColumnRef_loop X cat col (get_rangetable q) 0 None None of
                  Inl e \<Rightarrow> Inl e
                | Inr (found, cd) \<Rightarrow>
                    (case cd of
                       None \<Rightarrow> Inl (NameError (''Column name '' @ col @ '' does not exist.''))
                     | Some d \<Rightarrow>
                         (case found of
                            None \<Rightarrow> Inl UninitializedRead
                          | Some (rte_idx, table_id) \<Rightarrow>
                              Inr (ColumnVar (columnType d) table_id (columnId d)
                                     rte_idx (compression d) (comp_param d)))))))"

subsection \<open>The bodies of the analyze functions, after their operands are analyzed\<close>

definition IsNullExpr_build :: "externals \<Rightarrow> bool \<Rightarrow> Analyzer_Expr \<Rightarrow> Analyzer_Expr" where
  "IsNullExpr_build X is_not arg_expr =
     (let result = UOper (ti_of X kBOOLEAN) kISNULL arg_expr in
      if is_not then UOper (ti_of X kBOOLEAN) kNOT result else result)"

text \<open>
  Modelled from the spec: the constructors of \<open>Analyzer::InValues\<close> and
  \<open>Analyzer::LikeExpr\<close> (Analyzer.h) take no type; both nodes are predicates, of type
  BOOLEAN.
\<close>

definition InValues_build ::
  "externals \<Rightarrow> bool \<Rightarrow> Analyzer_Expr \<Rightarrow> Analyzer_Expr list \<Rightarrow> Analyzer_Expr"
where
  "InValues_build X is_not arg_expr value_exprs =
     (let result = InValuesA (ti_of X kBOOLEAN) arg_expr value_exprs in
      if is_not then UOper (ti_of X kBOOLEAN) kNOT result else result)"

text \<open>
  \<open>BetweenExpr::analyze\<close> after its three operands are analyzed.  The second call of
  \<open>analyze_type_info\<close> reads \<open>arg_expr\<close> and \<open>lower_expr\<close> as the two casts of the
  lower predicate left them.
\<close>

definition BetweenExpr_build ::
  "externals \<Rightarrow> bool \<Rightarrow> Analyzer_Expr \<Rightarrow> Analyzer_Expr \<Rightarrow> Analyzer_Expr
     \<Rightarrow> error + Analyzer_Expr"
where
  "BetweenExpr_build X is_not arg_expr lower_expr upper_expr =
     (case analyze_type_info X kGE (get_type_info arg_expr) (get_type_info lower_expr) of
        Inl e \<Rightarrow> Inl e
      | Inr (_, new_left_type, new_right_type) \<Rightarrow>
          (let lower_pred = BinOper (ti_of X kBOOLEAN) kGE kONE
                              (cast_to X arg_expr new_left_type)
                              (cast_to X lower_expr new_right_type);
               arg_expr1 = after_cast X arg_expr new_left_type;
               lower_expr1 = after_cast X lower_expr new_right_type
           in (case analyze_type_info X kLE (get_type_info arg_expr1)
                       (get_type_info lower_expr1) of
                 Inl e \<Rightarrow> Inl e
               | Inr (_, new_left_type2, new_right_type2) \<Rightarrow>
                   (let upper_pred = BinOper (ti_of X kBOOLEAN) kLE kONE
                                       (cast_to X (deep_copy arg_expr1) new_left_type2)
                                       (cast_to X upper_expr new_right_type2);
                        result = BinOper (ti_of X kBOOLEAN) kAND kONE lower_pred upper_pred
                    in Inr (if is_not then UOper (ti_of X kBOOLEAN) kNOT result
                            else result)))))"

definition LikeExpr_build ::
  "externals \<Rightarrow> bool \<Rightarrow> Analyzer_Expr \<Rightarrow> Analyzer_Expr \<Rightarrow> Analyzer_Expr option
     \<Rightarrow> error + Analyzer_Expr"
where
  "LikeExpr_build X is_not arg_expr like_expr escape_expr =
     (if \<not> IS_STRING (type (get_type_info arg_expr))
        then Inl (TypeError ''expression before LIKE must be of a string type.'')
      else if \<not> IS_STRING (type (get_type_info like_expr))
        then Inl (TypeError ''expression after LIKE must be of a string type.'')
      else if escape_expr \<noteq> None
              \<and> \<not> IS_STRING (type (get_type_info (the escape_expr)))
        then Inl (TypeError ''expression after ESCAPE must be of a string type.'')
      else
        (let result = LikeExprA (ti_of X kBOOLEAN) arg_expr like_expr escape_expr in
         Inr (if is_not then UOper (ti_of X kBOOLEAN) kNOT result else result)))"

text \<open>The last three statements of \<open>FunctionRef::analyze\<close>.\<close>

definition FunctionRef_finish ::
  "SQLTypeInfo \<Rightarrow> SQLAgg \<Rightarrow> Analyzer_Expr option \<Rightarrow> bool \<Rightarrow> Query \<Rightarrow> Analyzer_Expr \<times> Query"
where
  "FunctionRef_finish result_type agg_type arg_expr distinct_flag q =
     (let naggs = get_num_aggs q in
      (AggExpr result_type agg_type arg_expr distinct_flag, set_num_aggs (naggs + 1) q))"

definition CastExpr_build :: "externals \<Rightarrow> SQLType \<Rightarrow> Analyzer_Expr \<Rightarrow> Analyzer_Expr" where
  "CastExpr_build X target_type arg_expr =
     (let ti = \<lparr>type = get_type target_type, dimension = get_param1 target_type,
                scale = get_param2 target_type,
                notnull = notnull (get_type_info arg_expr)\<rparr>
      in cast_to X arg_expr ti)"

text \<open>
  The reconciliation of the running type \<open>ti\<close> of \<open>CaseExpr::analyze\<close> with one THEN
  arm: the new \<open>ti\<close> and the arm, retyped in place when it is NULLT.
\<close>

definition reconcile_then ::
  "externals \<Rightarrow> SQLTypeInfo \<Rightarrow> Analyzer_Expr \<Rightarrow> error + (SQLTypeInfo \<times> Analyzer_Expr)"
where
  "reconcile_then X ti e2 =
     (if type ti = kNULLT then Inr (get_type_info e2, e2)
      else if type (get_type_info e2) = kNULLT then Inr (ti, set_type_info e2 ti)
      else if ti \<noteq> get_type_info e2 then
        (if IS_STRING (type ti) \<and> IS_STRING (type (get_type_info e2))
           then Inr (common_string_type X ti (get_type_info e2), e2)
         else if IS_NUMBER (type ti) \<and> IS_NUMBER (type (get_type_info e2))
           then Inr (common_numeric_type X ti (get_type_info e2), e2)
         else Inl (TypeError
           ''expressions in THEN clause must be of the same or compatible types.''))
      else Inr (ti, e2))"

text \<open>The same for the ELSE arm, as the source writes it.\<close>

definition reconcile_else ::
  "externals \<Rightarrow> SQLTypeInfo \<Rightarrow> Analyzer_Expr \<Rightarrow> error + (SQLTypeInfo \<times> Analyzer_Expr)"
where
  "reconcile_else X ti else_e =
     (if type (get_type_info else_e) = kNULLT then Inr (ti, set_type_info else_e ti)
      else if ti \<noteq> get_type_info else_e then
        (if IS_STRING (type ti) \<and> IS_STRING (type (get_type_info else_e))
           then Inr (common_string_type X ti (get_type_info else_e), else_e)
         else if IS_NUMBER (type ti) \<and> IS_NUMBER (type (get_type_info else_e))
           then Inr (common_numeric_type X ti (get_type_info else_e), else_e)
         else Inl (TypeError (''expressions in ELSE clause must be of the same or ''
           @ ''compatible types as those in the THEN clauses.'')))
      else Inr (ti, else_e))"

text \<open>The second loop of \<open>CaseExpr::analyze\<close>, the cast of ELSE and the result.\<close>

definition CaseExpr_finish ::
  "externals \<Rightarrow> SQLTypeInfo \<Rightarrow> (Analyzer_Expr \<times> Analyzer_Expr) list \<Rightarrow> Analyzer_Expr option
     \<Rightarrow> Analyzer_Expr"
where
  "CaseExpr_finish X ti expr_pair_list else_e =
     CaseExprA ti (map (\<lambda>p. (fst p, cast_to X (snd p) ti)) expr_pair_list)
       (map_option (\<lambda>e. cast_to X e ti) else_e)"

subsection \<open>Expression analysis\<close>

text \<open>
  \<open>analyze\<close> is the virtual function \<open>Parser::Expr::analyze\<close>, one equation for each
  class.  \<open>analyze_value_list\<close> is the loop of \<open>InValues::analyze\<close> and
  \<open>analyze_when_then_list\<close> the first loop of \<open>CaseExpr::analyze\<close>, which carries the
  running type.  MIN, MAX, AVG and SUM call \<open>arg->analyze\<close> without a test for null.
\<close>

function (sequential) analyze ::
      "externals \<Rightarrow> Catalog \<Rightarrow> Parser_Expr \<Rightarrow> Query \<Rightarrow> error + (Analyzer_Expr \<times> Query)"
  and analyze_value_list ::
      "externals \<Rightarrow> Catalog \<Rightarrow> SQLTypeInfo \<Rightarrow> Parser_Expr list \<Rightarrow> Query
         \<Rightarrow> error + (Analyzer_Expr list \<times> Query)"
  and analyze_when_then_list ::
      "externals \<Rightarrow> Catalog \<Rightarrow> (Parser_Expr \<times> Parser_Expr) list \<Rightarrow> SQLTypeInfo \<Rightarrow> Query
         \<Rightarrow> error + (SQLTypeInfo \<times> (Analyzer_Expr \<times> Analyzer_Expr) list \<times> Query)"
where
  "analyze X cat NullLiteral q = Inr (NullLiteral_analyze X, q)"
| "analyze X cat (StringLiteral s) q = Inr (StringLiteral_analyze X s, q)"
| "analyze X cat (IntLiteral v) q = Inr (IntLiteral_analyze X v, q)"
| "analyze X cat (FixedPtLiteral s) q =
     (case FixedPtLiteral_analyze X s of Inl e \<Rightarrow> Inl e | Inr c \<Rightarrow> Inr (c, q))"
| "analyze X cat (FloatLiteral v) q = Inr (FloatLiteral_analyze X v, q)"
| "analyze X cat (DoubleLiteral v) q = Inr (DoubleLiteral_analyze X v, q)"
| "analyze X cat UserLiteral q = Inl (NotSupported ''USER literal not supported yet.'')"
| "analyze X cat (OperExpr optype left None) q =
     (case analyze X cat left q of
        Inl e \<Rightarrow> Inl e
      | Inr (left_expr, q1) \<Rightarrow>
          Inr (UOper (get_type_info left_expr) optype left_expr, q1))"
| "analyze X cat (OperExpr optype left (Some right)) q =
     (case analyze X cat left q of
        Inl e \<Rightarrow> Inl e
      | Inr (left_expr, q1) \<Rightarrow>
          (let left_type = get_type_info left_expr;
               qual = (case right of SubqueryExpr ql \<Rightarrow> ql | _ \<Rightarrow> kONE)
           in (case analyze X cat right q1 of
                 Inl e \<Rightarrow> Inl e
               | Inr (right_expr, q2) \<Rightarrow>
                   (let right_type = get_type_info right_expr in
                    (case analyze_type_info X optype left_type right_type of
                       Inl e \<Rightarrow> Inl e
                     | Inr (result_type, new_left_type, new_right_type) \<Rightarrow>
                         Inr (BinOper result_type optype qual
                                (if left_type \<noteq> new_left_type
                                   then cast_to X left_expr new_left_type else left_expr)
                                (if right_type \<noteq> new_right_type
                                   then cast_to X right_expr new_right_type
                                 else right_expr),
                              q2))))))"
| "analyze X cat (SubqueryExpr ql) q = Inl (NotSupported ''Subqueries are not supported yet.'')"
| "analyze X cat (IsNullExpr is_not arg) q =
     (case analyze X cat arg q of
        Inl e \<Rightarrow> Inl e
      | Inr (arg_expr, q1) \<Rightarrow> Inr (IsNullExpr_build X is_not arg_expr, q1))"
| "analyze X cat (InSubquery is_not arg) q =
     Inl (NotSupported ''Subqueries are not supported yet.'')"
| "analyze X cat (InValues is_not arg value_list) q =
     (case analyze X cat arg q of
        Inl e \<Rightarrow> Inl e
      | Inr (arg_expr, q1) \<Rightarrow>
          (case analyze_value_list X cat (get_type_info arg_expr) value_list q1 of
             Inl e \<Rightarrow> Inl e
           | Inr (value_exprs, q2) \<Rightarrow> Inr (InValues_build X is_not arg_expr value_exprs, q2)))"
| "analyze X cat (BetweenExpr is_not arg lower upper) q =
     (case analyze X cat arg q of
        Inl e \<Rightarrow> Inl e
      | Inr (arg_expr, q1) \<Rightarrow>
          (case analyze X cat lower q1 of
             Inl e \<Rightarrow> Inl e
           | Inr (lower_expr, q2) \<Rightarrow>
               (case analyze X cat upper q2 of
                  Inl e \<Rightarrow> Inl e
                | Inr (upper_expr, q3) \<Rightarrow>
                    (case BetweenExpr_build X is_not arg_expr lower_expr upper_expr of
                       Inl e \<Rightarrow> Inl e
                     | Inr result \<Rightarrow> Inr (result, q3)))))"
| "analyze X cat (LikeExpr is_not arg like_string None) q =
     (case analyze X cat arg q of
        Inl e \<Rightarrow> Inl e
      | Inr (arg_expr, q1) \<Rightarrow>
          (case analyze X cat like_string q1 of
             Inl e \<Rightarrow> Inl e
           | Inr (like_expr, q2) \<Rightarrow>
               (case LikeExpr_build X is_not arg_expr like_expr None of
                  Inl e \<Rightarrow> Inl e
                | Inr result \<Rightarrow> Inr (result, q2))))"
| "analyze X cat (LikeExpr is_not arg like_string (Some escape_string)) q =
     (case analyze X cat arg q of
        Inl e \<Rightarrow> Inl e
      | Inr (arg_expr, q1) \<Rightarrow>
          (case analyze X cat like_string q1 of
             Inl e \<Rightarrow> Inl e
           | Inr (like_expr, q2) \<Rightarrow>
               (case analyze X cat escape_string q2 of
                  Inl e \<Rightarrow> Inl e
                | Inr (escape_expr, q3) \<Rightarrow>
                    (case LikeExpr_build X is_not arg_expr like_expr (Some escape_expr) of
                       Inl e \<Rightarrow> Inl e
                     | Inr result \<Rightarrow> Inr (result, q3)))))"
| "analyze X cat ExistsExpr q = Inl (NotSupported ''Subqueries are not supported yet.'')"
| "analyze X cat (ColumnRef table column) q =
     (case ColumnRef_analyze X cat table column q of
        Inl e \<Rightarrow> Inl e
      | Inr c \<Rightarrow> Inr (c, q))"
| "analyze X cat (FunctionRef name distinct_flag None) q =
     (if iequals name ''count''
        then Inr (FunctionRef_finish (ti_of X kBIGINT) kCOUNT None distinct_flag q)
      else if iequals name ''min'' then Inl NullPointerDereference
      else if iequals name ''max'' then Inl NullPointerDereference
      else if iequals name ''avg'' then Inl NullPointerDereference
      else if iequals name ''sum'' then Inl NullPointerDereference
      else Inl (NotSupported (''invalid function name: '' @ name)))"
| "analyze X cat (FunctionRef name distinct_flag (Some arg)) q =
     (if iequals name ''count'' then
        (case analyze X cat arg q of
           Inl e \<Rightarrow> Inl e
         | Inr (arg_expr, q1) \<Rightarrow>
             Inr (FunctionRef_finish (ti_of X kBIGINT) kCOUNT (Some arg_expr) distinct_flag q1))
      else if iequals name ''min'' then
        (case analyze X cat arg q of
           Inl e \<Rightarrow> Inl e
         | Inr (arg_expr, q1) \<Rightarrow>
             Inr (FunctionRef_finish (get_type_info arg_expr) kMIN (Some arg_expr) False q1))
      else if iequals name ''max'' then
        (case analyze X cat arg q of
           Inl e \<Rightarrow> Inl e
         | Inr (arg_expr, q1) \<Rightarrow>
             Inr (FunctionRef_finish (get_type_info arg_expr) kMAX (Some arg_expr) False q1))
      else if iequals name ''avg'' then
        (case analyze X cat arg q of
           Inl e \<Rightarrow> Inl e
         | Inr (arg_expr, q1) \<Rightarrow>
             Inr (FunctionRef_finish (get_type_info arg_expr) kAVG (Some arg_expr) False q1))
      else if iequals name ''sum'' then
        (case analyze X cat arg q of
           Inl e \<Rightarrow> Inl e
         | Inr (arg_expr, q1) \<Rightarrow>
             Inr (FunctionRef_finish (get_type_info arg_expr) kSUM (Some arg_expr) False q1))
      else Inl (NotSupported (''invalid function name: '' @ name)))"
| "analyze X cat (CastExpr target_type arg) q =
     (case analyze X cat arg q of
        Inl e \<Rightarrow> Inl e
      | Inr (arg_expr, q1) \<Rightarrow> Inr (CastExpr_build X target_type arg_expr, q1))"
| "analyze X cat (CaseExpr when_then_list None) q =
     (case analyze_when_then_list X cat when_then_list (ti_of X kNULLT) q of
        Inl e \<Rightarrow> Inl e
      | Inr (ti, expr_pair_list, q1) \<Rightarrow>
          Inr (CaseExpr_finish X ti expr_pair_list None, q1))"
| "analyze X cat (CaseExpr when_then_list (Some else_expr)) q =
     (case analyze_when_then_list X cat when_then_list (ti_of X kNULLT) q of
        Inl e \<Rightarrow> Inl e
      | Inr (ti, expr_pair_list, q1) \<Rightarrow>
          (case analyze X cat else_expr q1 of
             Inl e \<Rightarrow> Inl e
           | Inr (else_e, q2) \<Rightarrow>
               (case reconcile_else X ti else_e of
                  Inl e \<Rightarrow> Inl e
                | Inr (ti2, else_e2) \<Rightarrow>
                    Inr (CaseExpr_finish X ti2 expr_pair_list (Some else_e2), q2))))"
| "analyze_value_list X cat ti [] q = Inr ([], q)"
| "analyze_value_list X cat ti (p # ps) q =
     (case analyze X cat p q of
        Inl e \<Rightarrow> Inl e
      | Inr (e, q1) \<Rightarrow>
          (case analyze_value_list X cat ti ps q1 of
             Inl err \<Rightarrow> Inl err
           | Inr (value_exprs, q2) \<Rightarrow> Inr (cast_to X e ti # value_exprs, q2)))"
| "analyze_when_then_list X cat [] ti q = Inr (ti, [], q)"
| "analyze_when_then_list X cat ((expr1, expr2) # ps) ti q =
     (case analyze X cat expr1 q of
        Inl e \<Rightarrow> Inl e
      | Inr (e1, q1) \<Rightarrow>
          (if type (get_type_info e1) \<noteq> kBOOLEAN
             then Inl (TypeError ''Only boolean expressions can be used after WHEN.'')
           else
             (case analyze X cat expr2 q1 of
                Inl e \<Rightarrow> Inl e
              | Inr (e2, q2) \<Rightarrow>
                  (case reconcile_then X ti e2 of
                     Inl e \<Rightarrow> Inl e
                   | Inr (ti2, e2a) \<Rightarrow>
                       (case analyze_when_then_list X cat ps ti2 q2 of
                          Inl e \<Rightarrow> Inl e
                        | Inr (ti3, expr_pair_list, q3) \<Rightarrow>
                            Inr (ti3, (e1, e2a) # expr_pair_list, q3))))))"
  by pat_completeness auto

termination
  by (relation "measure (\<lambda>x. case x of
         Inl (X, cat, e, q) \<Rightarrow> size e
       | Inr (Inl (X, cat, ti, ps, q)) \<Rightarrow> size_list size ps
       | Inr (Inr (X, cat, ps, ti, q)) \<Rightarrow> size_list (size_prod size size) ps)")
     auto

subsection \<open>Statement analysis\<close>

record TableRef =
  table_name :: string
  range_var :: "string option"

record SelectEntry =
  select_expr :: Parser_Expr
  se_alias :: "string option"

record QuerySpec =
  qs_is_distinct :: bool
  select_clause :: "SelectEntry list option"
  from_clause :: "TableRef list"
  where_clause :: "Parser_Expr option"
  groupby_clause :: "Parser_Expr list option"
  having_clause :: "Parser_Expr option"

datatype QueryExpr = QuerySpecE QuerySpec | UnionQuery bool QueryExpr QueryExpr

text \<open>
  \<open>os_column\<close> is the \<open>ColumnRef\<close> of an ORDER BY entry, by its table and column
  names; it is null when the entry is a number.
\<close>

record OrderSpec =
  colno :: int
  os_column :: "(string option \<times> string option) option"
  os_is_desc :: bool
  os_nulls_first :: bool

record SelectStmt =
  query_expr :: QueryExpr
  orderby_clause :: "OrderSpec list option"
  sel_limit :: int
  sel_offset :: int

fun analyze_from_clause ::
  "externals \<Rightarrow> Catalog \<Rightarrow> TableRef list \<Rightarrow> Query \<Rightarrow> error + Query"
where
  "analyze_from_clause X cat [] q = Inr q"
| "analyze_from_clause X cat (p # ps) q =
     (case getMetadataForTable cat (table_name p) of
        None \<Rightarrow> Inl (NameError (''Table '' @ table_name p @ '' does not exist.''))
      | Some td \<Rightarrow>
          (if isView td \<and> \<not> isMaterialized td
             then Inl (NotSupported (''Non-materialized view '' @ table_name p
                                      @ '' is not supported yet.''))
           else
             (let rv = (case range_var p of None \<Rightarrow> table_name p | Some r \<Rightarrow> r);
                  rte = \<lparr>rangevar = rv, table_desc = td\<rparr>
              in analyze_from_clause X cat ps (add_rte rte q))))"

definition push_targets :: "TargetEntry list \<Rightarrow> Query \<Rightarrow> Query" where
  "push_targets tles = upd (\<lambda>f. f\<lparr>targetlist := targetlist f @ tles\<rparr>)"

text \<open>The loop of \<open>SELECT *\<close> over the range table, with its counter.\<close>

fun expand_all_stars ::
  "externals \<Rightarrow> Catalog \<Rightarrow> RangeTblEntry list \<Rightarrow> int \<Rightarrow> Query \<Rightarrow> Query"
where
  "expand_all_stars X cat [] i q = q"
| "expand_all_stars X cat (rte # rtes) i q =
     expand_all_stars X cat rtes (i + 1)
       (push_targets (expand_star_in_targetlist X cat rte i) q)"

text \<open>The result name of a select item that is not of the form \<open>t.*\<close>.\<close>

definition select_resname ::
  "Catalog \<Rightarrow> string option \<Rightarrow> Analyzer_Expr \<Rightarrow> error + string"
where
  "select_resname cat als e =
     (case als of
        Some a \<Rightarrow> Inr a
      | None \<Rightarrow>
          (case e of
             ColumnVar ti table_id column_id rte_idx enc param \<Rightarrow>
               (case getMetadataForColumnId cat table_id column_id of
                  None \<Rightarrow> Inl NullPointerDereference
                | Some col_desc \<Rightarrow> Inr (columnName col_desc))
           | _ \<Rightarrow> Inr []))"

fun select_entries ::
  "externals \<Rightarrow> Catalog \<Rightarrow> SelectEntry list \<Rightarrow> Query \<Rightarrow> error + Query"
where
  "select_entries X cat [] q = Inr q"
| "select_entries X cat (p # ps) q =
     (case select_expr p of
        ColumnRef table None \<Rightarrow>
          (case table of
             None \<Rightarrow> Inl NullPointerDereference
           | Some range_var_name \<Rightarrow>
               (let rte_idx = get_rte_idx q range_var_name in
                if rte_idx < 0
                  then Inl (NameError (''invalid range variable name: '' @ range_var_name))
                else select_entries X cat ps
                       (push_targets
                          (expand_star_in_targetlist X cat (get_rte q rte_idx) rte_idx) q)))
      | _ \<Rightarrow>
          (case analyze X cat (select_expr p) q of
             Inl e \<Rightarrow> Inl e
           | Inr (e, q1) \<Rightarrow>
               (case select_resname cat (se_alias p) e of
                  Inl err \<Rightarrow> Inl err
                | Inr rn \<Rightarrow>
                    select_entries X cat ps
                      (push_targets [\<lparr>resname = rn, expr = e\<rparr>] q1))))"

definition analyze_select_clause ::
  "externals \<Rightarrow> Catalog \<Rightarrow> QuerySpec \<Rightarrow> Query \<Rightarrow> error + Query"
where
  "analyze_select_clause X cat qs q =
     (case select_clause qs of
        None \<Rightarrow> Inr (expand_all_stars X cat (get_rangetable q) 0 q)
      | Some entries \<Rightarrow> select_entries X cat entries q)"

definition analyze_where_clause ::
  "externals \<Rightarrow> Catalog \<Rightarrow> QuerySpec \<Rightarrow> Query \<Rightarrow> error + Query"
where
  "analyze_where_clause X cat qs q =
     (case where_clause qs of
        None \<Rightarrow> Inr (upd (\<lambda>f. f\<lparr>where_predicate := None\<rparr>) q)
      | Some w \<Rightarrow>
          (case analyze X cat w q of
             Inl e \<Rightarrow> Inl e
           | Inr (p, q1) \<Rightarrow>
               (if type (get_type_info p) \<noteq> kBOOLEAN
                  then Inl (TypeError ''Only boolean expressions can be in WHERE clause.'')
                else Inr (upd (\<lambda>f. f\<lparr>where_predicate := Some p\<rparr>) q1))))"

fun analyze_exprs ::
  "externals \<Rightarrow> Catalog \<Rightarrow> Parser_Expr list \<Rightarrow> Query \<Rightarrow> error + (Analyzer_Expr list \<times> Query)"
where
  "analyze_exprs X cat [] q = Inr ([], q)"
| "analyze_exprs X cat (c # cs) q =
     (case analyze X cat c q of
        Inl e \<Rightarrow> Inl e
      | Inr (e, q1) \<Rightarrow>
          (case analyze_exprs X cat cs q1 of
             Inl err \<Rightarrow> Inl err
           | Inr (es, q2) \<Rightarrow> Inr (e # es, q2)))"

definition is_AggExpr :: "Analyzer_Expr \<Rightarrow> bool" where
  "is_AggExpr e = (case e of AggExpr ti g a d \<Rightarrow> True | _ \<Rightarrow> False)"

fun check_targets ::
  "externals \<Rightarrow> TargetEntry list \<Rightarrow> Analyzer_Expr list option \<Rightarrow> error option"
where
  "check_targets X [] groupby = None"
| "check_targets X (t # ts) groupby =
     (if \<not> is_AggExpr (expr t) then
        (case check_group_by X (expr t) groupby of
           Some err \<Rightarrow> Some err
         | None \<Rightarrow> check_targets X ts groupby)
      else check_targets X ts groupby)"

definition analyze_group_by ::
  "externals \<Rightarrow> Catalog \<Rightarrow> QuerySpec \<Rightarrow> Query \<Rightarrow> error + Query"
where
  "analyze_group_by X cat qs q =
     (case (case groupby_clause qs of
              None \<Rightarrow> Inr (None, q)
            | Some cs \<Rightarrow>
                (case analyze_exprs X cat cs q of
                   Inl e \<Rightarrow> Inl e
                 | Inr (es, q1) \<Rightarrow> Inr (Some es, q1))) of
        Inl e \<Rightarrow> Inl e
      | Inr (groupby, q1) \<Rightarrow>
          (case (if get_num_aggs q1 > 0 \<or> groupby \<noteq> None
                   then check_targets X (get_targetlist q1) groupby else None) of
             Some err \<Rightarrow> Inl err
           | None \<Rightarrow> Inr (upd (\<lambda>f. f\<lparr>group_by := groupby\<rparr>) q1)))"

definition analyze_having_clause ::
  "externals \<Rightarrow> Catalog \<Rightarrow> QuerySpec \<Rightarrow> Query \<Rightarrow> error + Query"
where
  "analyze_having_clause X cat qs q =
     (case having_clause qs of
        None \<Rightarrow> Inr (upd (\<lambda>f. f\<lparr>having_predicate := None\<rparr>) q)
      | Some h \<Rightarrow>
          (case analyze X cat h q of
             Inl e \<Rightarrow> Inl e
           | Inr (p, q1) \<Rightarrow>
               (if type (get_type_info p) \<noteq> kBOOLEAN
                  then Inl (TypeError ''Only boolean expressions can be in HAVING clause.'')
                else
                  (case check_group_by X p (get_group_by q1) of
                     Some err \<Rightarrow> Inl err
                   | None \<Rightarrow> Inr (upd (\<lambda>f. f\<lparr>having_predicate := Some p\<rparr>) q1)))))"

definition QuerySpec_analyze ::
  "externals \<Rightarrow> Catalog \<Rightarrow> QuerySpec \<Rightarrow> Query \<Rightarrow> error + Query"
where
  "QuerySpec_analyze X cat qs q =
     (case analyze_from_clause X cat (from_clause qs)
             (upd (\<lambda>f. f\<lparr>is_distinct := qs_is_distinct qs\<rparr>) q) of
        Inl e \<Rightarrow> Inl e
      | Inr q1 \<Rightarrow>
          (case analyze_select_clause X cat qs q1 of
             Inl e \<Rightarrow> Inl e
           | Inr q2 \<Rightarrow>
               (case analyze_where_clause X cat qs q2 of
                  Inl e \<Rightarrow> Inl e
                | Inr q3 \<Rightarrow>
                    (case analyze_group_by X cat qs q3 of
                       Inl e \<Rightarrow> Inl e
                     | Inr q4 \<Rightarrow> analyze_having_clause X cat qs q4))))"

fun QueryExpr_analyze ::
  "externals \<Rightarrow> Catalog \<Rightarrow> QueryExpr \<Rightarrow> Query \<Rightarrow> error + Query"
where
  "QueryExpr_analyze X cat (QuerySpecE qs) q = QuerySpec_analyze X cat qs q"
| "QueryExpr_analyze X cat (UnionQuery unionall left right) q =
     (case QueryExpr_analyze X cat left q of
        Inl e \<Rightarrow> Inl e
      | Inr q1 \<Rightarrow>
          (case QueryExpr_analyze X cat right (new_Query X) of
             Inl e \<Rightarrow> Inl e
           | Inr right_query \<Rightarrow>
               Inr (upd (\<lambda>f. f\<lparr>is_unionall := unionall\<rparr>)
                      (set_next_query right_query q1))))"

text \<open>
  The search of \<open>SelectStmt::analyze\<close> for a target whose \<open>resname\<close> is the name, with
  the counter \<open>tle_no\<close>; \<open>None\<close> is \<open>found == false\<close>.
\<close>

fun find_tle :: "string \<Rightarrow> TargetEntry list \<Rightarrow> int \<Rightarrow> int option" where
  "find_tle name [] n = None"
| "find_tle name (tle # tles) n =
     (if resname tle = name then Some n else find_tle name tles (n + 1))"

fun order_by_entries :: "TargetEntry list \<Rightarrow> OrderSpec list \<Rightarrow> error + OrderEntry list" where
  "order_by_entries tlist [] = Inr []"
| "order_by_entries tlist (p # ps) =
     (case (if colno p = 0 then
              (case os_column p of
                 None \<Rightarrow> Inl NullPointerDereference
               | Some (table, column) \<Rightarrow>
                   (case column of
                      None \<Rightarrow> Inl NullPointerDereference
                    | Some name \<Rightarrow>
                        (case find_tle name tlist 1 of
                           None \<Rightarrow> Inl (NameError (''invalid name in order by: '' @ name))
                         | Some n \<Rightarrow> Inr n)))
            else Inr (colno p)) of
        Inl e \<Rightarrow> Inl e
      | Inr n \<Rightarrow>
          (case order_by_entries tlist ps of
             Inl e \<Rightarrow> Inl e
           | Inr es \<Rightarrow>
               Inr (\<lparr>tle_no = n, is_desc = os_is_desc p, nulls_first = os_nulls_first p\<rparr>
                    # es)))"

definition SelectStmt_analyze ::
  "externals \<Rightarrow> Catalog \<Rightarrow> SelectStmt \<Rightarrow> Query \<Rightarrow> error + Query"
where
  "SelectStmt_analyze X cat stmt q =
     (case QueryExpr_analyze X cat (query_expr stmt)
             (upd (\<lambda>f. f\<lparr>stmt_type := kSELECT, limit := sel_limit stmt,
                            offset := sel_offset stmt\<rparr>) q) of
        Inl e \<Rightarrow> Inl e
      | Inr q1 \<Rightarrow>
          (case orderby_clause stmt of
             None \<Rightarrow> Inr (upd (\<lambda>f. f\<lparr>order_by := None\<rparr>) q1)
           | Some obs \<Rightarrow>
               (case order_by_entries (get_targetlist q1) obs of
                  Inl e \<Rightarrow> Inl e
                | Inr es \<Rightarrow> Inr (upd (\<lambda>f. f\<lparr>order_by := Some es\<rparr>) q1))))"

subsection \<open>Data definition statements\<close>

text \<open>
  \<open>execute\<close> ends in at most one call that changes the catalog.  The result of the
  model is the error thrown, or the call made (\<open>None\<close> when \<open>execute\<close> returns without
  one): no call is made on an \<open>Inl\<close> result.
\<close>

datatype catalog_call =
    createTable TableDescriptor "ColumnDescriptor list"
  | createUser string string bool
  | alterUser string "string option" "bool option"
  | dropUser string
  | createDatabase string int
  | dropDatabase string

text \<open>
  \<open>CompressDef\<close> is declared in ParserNode.h.  Its \<open>encoding_param\<close> is an \<open>int\<close>,
  as are the other numeric members that this file reads (\<open>colno\<close>, \<open>param1\<close>,
  \<open>param2\<close>); the remainder \<open>%\<close> of C++ truncates towards zero and is \<open>smod\<close>.
\<close>

record CompressDef =
  encoding_name :: string
  encoding_param :: int

record ColumnConstraintDef =
  get_notnull :: bool

datatype TableElement =
    ColumnDef string SQLType "CompressDef option" "ColumnConstraintDef option"
  | TableConstraintDef

record NameValueAssign =
  nv_name :: string
  nv_value :: Parser_Expr

record CreateTableStmt =
  ct_table :: string
  table_element_list :: "TableElement list"
  if_not_exists :: bool
  storage_options :: "NameValueAssign list option"

text \<open>The body of the loop over the table elements, for one element.\<close>

definition column_descriptor :: "externals \<Rightarrow> TableElement \<Rightarrow> error + ColumnDescriptor" where
  "column_descriptor X e =
     (case e of
        TableConstraintDef \<Rightarrow> Inl (NotSupported ''Table constraints are not supported yet.'')
      | ColumnDef column_name t compr cc \<Rightarrow>
          (let nn = (case cc of None \<Rightarrow> False | Some c \<Rightarrow> get_notnull c);
               cd = (default_cd X)
                      \<lparr>columnName := column_name,
                       columnType := \<lparr>type = get_type t, dimension = get_param1 t,
                                      scale = get_param2 t, notnull = nn\<rparr>\<rparr>
           in (case compr of
                 None \<Rightarrow> Inr (cd\<lparr>compression := kENCODING_NONE, comp_param := 0\<rparr>)
               | Some c \<Rightarrow>
                   (let comp = encoding_name c in
                    if iequals comp ''fixed'' then
                      (if encoding_param c = 0 \<or> encoding_param c smod 8 \<noteq> 0
                            \<or> encoding_param c > 48
                         then Inl (ArgError (''Must specify number of bits as 8, 16, 24, 32 ''
                                @ ''or 48 as the parameter to fixed-bits encoding.''))
                       else Inr (cd\<lparr>compression := kENCODING_FIXED,
                                     comp_param := encoding_param c\<rparr>))
                    else if iequals comp ''rl''
                      then Inr (cd\<lparr>compression := kENCODING_RL, comp_param := 0\<rparr>)
                    else if iequals comp ''diff''
                      then Inr (cd\<lparr>compression := kENCODING_DIFF, comp_param := 0\<rparr>)
                    else if iequals comp ''dict''
                      then Inr (cd\<lparr>compression := kENCODING_DICT, comp_param := 0\<rparr>)
                    else if iequals comp ''sparse'' then
                      (if notnull (columnType cd)
                         then Inl (ArgError
                                ''Cannot do sparse column encoding on a NOT NULL column.'')
                       else if encoding_param c = 0 \<or> encoding_param c smod 8 \<noteq> 0
                                 \<or> encoding_param c > 48
                         then Inl (ArgError (''Must specify number of bits as 8, 16, 24, 32 ''
                                @ ''or 48 as the parameter to sparse-column encoding.''))
                       else Inr (cd\<lparr>compression := kENCODING_SPARSE,
                                     comp_param := encoding_param c\<rparr>))
                    else Inl (ArgError (''Invalid column compression scheme '' @ comp))))))"

fun column_descriptors ::
  "externals \<Rightarrow> TableElement list \<Rightarrow> error + ColumnDescriptor list"
where
  "column_descriptors X [] = Inr []"
| "column_descriptors X (e # es) =
     (case column_descriptor X e of
        Inl err \<Rightarrow> Inl err
      | Inr cd \<Rightarrow>
          (case column_descriptors X es of
             Inl err \<Rightarrow> Inl err
           | Inr cds \<Rightarrow> Inr (cd # cds)))"

text \<open>
  The loop over the storage options.  \<open>get_intval\<close> is an \<open>int64_t\<close> that the source
  assigns to an \<open>int\<close>, which keeps the low 32 bits.
\<close>

fun table_storage_options ::
  "NameValueAssign list \<Rightarrow> TableDescriptor \<Rightarrow> error + TableDescriptor"
where
  "table_storage_options [] td = Inr td"
| "table_storage_options (p # ps) td =
     (if iequals (nv_name p) ''fragment_size'' then
        (case nv_value p of
           IntLiteral v \<Rightarrow>
             (let frag_size = sint (ucast v :: 32 word) in
              if frag_size \<le> 0
                then Inl (ArgError ''FRAGMENT_SIZE must be a positive number.'')
              else table_storage_options ps (td\<lparr>maxFragRows := frag_size\<rparr>))
         | _ \<Rightarrow> Inl (ArgError ''FRAGMENT_SIZE must be an integer literal.''))
      else if iequals (nv_name p) ''page_size'' then
        (case nv_value p of
           IntLiteral v \<Rightarrow>
             (let page_size = sint (ucast v :: 32 word) in
              if page_size \<le> 0
                then Inl (ArgError ''PAGE_SIZE must be a positive number.'')
              else table_storage_options ps (td\<lparr>fragPageSize := page_size\<rparr>))
         | _ \<Rightarrow> Inl (ArgError ''PAGE_SIZE must be an integer literal.''))
      else Inl (ArgError (''Invalid CREATE TABLE option '' @ nv_name p
                          @ ''.  Should be FRAGMENT_SIZE or PAGE_SIZE.'')))"

definition CreateTableStmt_execute ::
  "externals \<Rightarrow> Catalog \<Rightarrow> CreateTableStmt \<Rightarrow> error + catalog_call option"
where
  "CreateTableStmt_execute X cat stmt =
     (if getMetadataForTable cat (ct_table stmt) \<noteq> None then
        (if if_not_exists stmt then Inr None
         else Inl (ExistsError (''Table '' @ ct_table stmt @ '' already exits.'')))
      else
        (case column_descriptors X (table_element_list stmt) of
           Inl e \<Rightarrow> Inl e
         | Inr columns \<Rightarrow>
             (let td = (default_td X)
                         \<lparr>tableName := ct_table stmt, nColumns := length columns,
                          isView := False, isMaterialized := False,
                          checkOption := False, storageOption := kDISK,
                          refreshOption := kMANUAL, isReady := True, partitioner := None,
                          fragType := INSERT_ORDER,
                          maxFragRows := DEFAULT_FRAGMENT_SIZE X,
                          fragPageSize := DEFAULT_PAGE_SIZE X\<rparr>
              in (case (case storage_options stmt of
                          None \<Rightarrow> Inr td
                        | Some opts \<Rightarrow> table_storage_options opts td) of
                    Inl e \<Rightarrow> Inl e
                  | Inr td1 \<Rightarrow> Inr (Some (createTable td1 columns))))))"

subsection \<open>Users and databases\<close>

text \<open>
  \<open>name_value_list\<close> may be null, as the destructors test.  \<open>CreateUserStmt\<close> and
  \<open>AlterUserStmt\<close> iterate over it without a test.
\<close>

record CreateUserStmt =
  cu_user_name :: string
  cu_name_value_list :: "NameValueAssign list option"

record AlterUserStmt =
  au_user_name :: string
  au_name_value_list :: "NameValueAssign list option"

record CreateDBStmt =
  db_name :: string
  db_name_value_list :: "NameValueAssign list option"

text \<open>The loop of \<open>CreateUserStmt::execute\<close> over the options, with its two variables.\<close>

fun CreateUser_options ::
  "NameValueAssign list \<Rightarrow> string \<Rightarrow> bool \<Rightarrow> error + (string \<times> bool)"
where
  "CreateUser_options [] passwd is_super = Inr (passwd, is_super)"
| "CreateUser_options (p # ps) passwd is_super =
     (if iequals (nv_name p) ''password'' then
        (case nv_value p of
           StringLiteral str \<Rightarrow> CreateUser_options ps str is_super
         | _ \<Rightarrow> Inl (ArgError ''Password must be a string literal.''))
      else if iequals (nv_name p) ''is_super'' then
        (case nv_value p of
           StringLiteral str \<Rightarrow>
             (if iequals str ''true'' then CreateUser_options ps passwd True
              else if iequals str ''false'' then CreateUser_options ps passwd False
              else Inl (ArgError ''Value to IS_SUPER must be TRUE or FALSE.''))
         | _ \<Rightarrow> Inl (ArgError ''IS_SUPER option must be a string literal.''))
      else Inl (ArgError (''Invalid CREATE USER option '' @ nv_name p
                          @ ''.  Should be PASSWORD or IS_SUPER.'')))"

definition CreateUserStmt_execute ::
  "externals \<Rightarrow> Catalog \<Rightarrow> CreateUserStmt \<Rightarrow> error + catalog_call option"
where
  "CreateUserStmt_execute X cat stmt =
     (case cu_name_value_list stmt of
        None \<Rightarrow> Inl NullPointerDereference
      | Some nvl \<Rightarrow>
          (case CreateUser_options nvl [] False of
             Inl e \<Rightarrow> Inl e
           | Inr (passwd, is_super) \<Rightarrow>
               (if passwd = []
                  then Inl (PermissionError ''Must have a password for CREATE USER.'')
                else if currentDB_dbName cat \<noteq> MAPD_SYSTEM_DB X
                  then Inl (PermissionError
                         ''Must be in the system database to create users.'')
                else Inr (Some (createUser (cu_user_name stmt) passwd is_super)))))"

text \<open>
  The loop of \<open>AlterUserStmt::execute\<close>; \<open>passwd\<close> and \<open>is_superp\<close> are pointers that
  stay null until an option sets them.
\<close>

fun AlterUser_options ::
  "NameValueAssign list \<Rightarrow> string option \<Rightarrow> bool option
     \<Rightarrow> error + (string option \<times> bool option)"
where
  "AlterUser_options [] passwd is_superp = Inr (passwd, is_superp)"
| "AlterUser_options (p # ps) passwd is_superp =
     (if iequals (nv_name p) ''password'' then
        (case nv_value p of
           StringLiteral str \<Rightarrow> AlterUser_options ps (Some str) is_superp
         | _ \<Rightarrow> Inl (ArgError ''Password must be a string literal.''))
      else if iequals (nv_name p) ''is_super'' then
        (case nv_value p of
           StringLiteral str \<Rightarrow>
             (if iequals str ''true'' then AlterUser_options ps passwd (Some True)
              else if iequals str ''false'' then AlterUser_options ps passwd (Some False)
              else Inl (ArgError ''Value to IS_SUPER must be TRUE or FALSE.''))
         | _ \<Rightarrow> Inl (ArgError ''IS_SUPER option must be a string literal.''))
      else Inl (ArgError (''Invalid CREATE USER option '' @ nv_name p
                          @ ''.  Should be PASSWORD or IS_SUPER.'')))"

definition AlterUserStmt_execute ::
  "externals \<Rightarrow> Catalog \<Rightarrow> AlterUserStmt \<Rightarrow> error + catalog_call option"
where
  "AlterUserStmt_execute X cat stmt =
     (case au_name_value_list stmt of
        None \<Rightarrow> Inl NullPointerDereference
      | Some nvl \<Rightarrow>
          (case AlterUser_options nvl None None of
             Inl e \<Rightarrow> Inl e
           | Inr (passwd, is_superp) \<Rightarrow>
               Inr (Some (alterUser (au_user_name stmt) passwd is_superp))))"

definition DropUserStmt_execute ::
  "externals \<Rightarrow> Catalog \<Rightarrow> string \<Rightarrow> error + catalog_call option"
where
  "DropUserStmt_execute X cat user_name =
     (if currentDB_dbName cat \<noteq> MAPD_SYSTEM_DB X
        then Inl (PermissionError ''Must be in the system database to drop users.'')
      else Inr (Some (dropUser user_name)))"

fun CreateDB_options :: "Catalog \<Rightarrow> NameValueAssign list \<Rightarrow> int \<Rightarrow> error + int" where
  "CreateDB_options cat [] ownerId = Inr ownerId"
| "CreateDB_options cat (p # ps) ownerId =
     (if iequals (nv_name p) ''owner'' then
        (case nv_value p of
           StringLiteral str \<Rightarrow>
             (case getMetadataForUser cat str of
                None \<Rightarrow> Inl (NameError (''User '' @ str @ '' does not exist.''))
              | Some userId \<Rightarrow> CreateDB_options cat ps userId)
         | _ \<Rightarrow> Inl (ArgError ''Owner name must be a string literal.''))
      else Inl (ArgError (''Invalid CREATE DATABASE option '' @ nv_name p
                          @ ''. Only OWNER supported.'')))"

definition CreateDBStmt_execute ::
  "externals \<Rightarrow> Catalog \<Rightarrow> CreateDBStmt \<Rightarrow> error + catalog_call option"
where
  "CreateDBStmt_execute X cat stmt =
     (if currentDB_dbName cat \<noteq> MAPD_SYSTEM_DB X
        then Inl (PermissionError ''Must be in the system database to create databases.'')
      else
        (case (case db_name_value_list stmt of
                 None \<Rightarrow> Inr (currentUser_userId cat)
               | Some nvl \<Rightarrow> CreateDB_options cat nvl (currentUser_userId cat)) of
           Inl e \<Rightarrow> Inl e
         | Inr ownerId \<Rightarrow> Inr (Some (createDatabase (db_name stmt) ownerId))))"

definition DropDBStmt_execute ::
  "externals \<Rightarrow> Catalog \<Rightarrow> string \<Rightarrow> error + catalog_call option"
where
  "DropDBStmt_execute X cat name =
     (if currentDB_dbName cat \<noteq> MAPD_SYSTEM_DB X
        then Inl (PermissionError ''Must be in the system database to drop databases.'')
      else Inr (Some (dropDatabase name)))"

section \<open>An implementation of the external members and a catalog\<close>

text \<open>
  The theorems below hold for every value of \<open>externals\<close> and every catalog.  To
  evaluate the model on concrete statements this section gives one of each: the
  members of the analyzer as the specification describes them, and the catalog of
  scenario S1 of the specification with a third table.
\<close>

text \<open>
  Modelled from the spec: \<open>BinOper::common_string_type\<close> (Analyzer.cpp).  TEXT
  dominates VARCHAR, which dominates CHAR; the dimension is the larger of the two.
\<close>

definition common_string_type_spec :: "SQLTypeInfo \<Rightarrow> SQLTypeInfo \<Rightarrow> SQLTypeInfo" where
  "common_string_type_spec t1 t2 =
     \<lparr>type = (if type t1 = kTEXT \<or> type t2 = kTEXT then kTEXT
              else if type t1 = kVARCHAR \<or> type t2 = kVARCHAR then kVARCHAR else kCHAR),
      dimension = max (dimension t1) (dimension t2),
      scale = 0,
      notnull = (notnull t1 \<and> notnull t2)\<rparr>"

text \<open>
  Modelled from the spec: \<open>BinOper::common_numeric_type\<close> (Analyzer.cpp).  The wider
  of two integer types; DOUBLE if either is DOUBLE, else FLOAT if either is FLOAT; else
  NUMERIC with room for the integer digits and the scale of both, an integer type
  counting as 5, 10 or 19 digits of scale 0.
\<close>

definition int_rank :: "SQLTypes \<Rightarrow> nat" where
  "int_rank t = (if t = kSMALLINT then 1 else if t = kINT then 2 else 3)"

definition is_integer_type :: "SQLTypes \<Rightarrow> bool" where
  "is_integer_type t = (t = kSMALLINT \<or> t = kINT \<or> t = kBIGINT)"

definition digits_of :: "SQLTypeInfo \<Rightarrow> int \<times> int" where
  "digits_of t =
     (if type t = kSMALLINT then (5, 0) else if type t = kINT then (10, 0)
      else if type t = kBIGINT then (19, 0) else (dimension t - scale t, scale t))"

definition common_numeric_type_spec :: "SQLTypeInfo \<Rightarrow> SQLTypeInfo \<Rightarrow> SQLTypeInfo" where
  "common_numeric_type_spec t1 t2 =
     (let nn = (notnull t1 \<and> notnull t2) in
      if type t1 = kDOUBLE \<or> type t2 = kDOUBLE
        then \<lparr>type = kDOUBLE, dimension = 0, scale = 0, notnull = nn\<rparr>
      else if type t1 = kFLOAT \<or> type t2 = kFLOAT
        then \<lparr>type = kFLOAT, dimension = 0, scale = 0, notnull = nn\<rparr>
      else if is_integer_type (type t1) \<and> is_integer_type (type t2)
        then \<lparr>type = (if int_rank (type t1) \<ge> int_rank (type t2) then type t1 else type t2),
              dimension = 0, scale = 0, notnull = nn\<rparr>
      else
        (let sc = max (snd (digits_of t1)) (snd (digits_of t2));
             ds = max (fst (digits_of t1)) (fst (digits_of t2))
         in \<lparr>type = kNUMERIC, dimension = ds + sc, scale = sc, notnull = nn\<rparr>))"

text \<open>
  Modelled from the spec: \<open>BinOper::analyze_type_info\<close> (Analyzer.cpp), section 4.1 of
  the specification.  A comparison is BOOLEAN and coerces both operands to their
  common numeric or string type; arithmetic has the common numeric type; AND and OR
  take BOOLEAN operands.
\<close>

definition analyze_type_info_spec ::
  "SQLOps \<Rightarrow> SQLTypeInfo \<Rightarrow> SQLTypeInfo \<Rightarrow> error + (SQLTypeInfo \<times> SQLTypeInfo \<times> SQLTypeInfo)"
where
  "analyze_type_info_spec oper l r =
     (let bool_ti = \<lparr>type = kBOOLEAN, dimension = 0, scale = 0,
                     notnull = (notnull l \<and> notnull r)\<rparr> in
      if oper \<in> {kEQ, kNE, kLT, kGT, kLE, kGE} then
        (if IS_NUMBER (type l) \<and> IS_NUMBER (type r)
           then (let c = common_numeric_type_spec l r in Inr (bool_ti, c, c))
         else if IS_STRING (type l) \<and> IS_STRING (type r)
           then (let c = common_string_type_spec l r in Inr (bool_ti, c, c))
         else Inl (TypeError ''Cannot compare between the operand types.''))
      else if oper \<in> {kMINUS, kPLUS, kMULTIPLY, kDIVIDE} then
        (if IS_NUMBER (type l) \<and> IS_NUMBER (type r)
           then (let c = common_numeric_type_spec l r in Inr (c, c, c))
         else Inl (TypeError ''non-numeric operands in arithmetic operations.''))
      else if oper \<in> {kAND, kOR} then
        (if type l = kBOOLEAN \<and> type r = kBOOLEAN then Inr (bool_ti, l, r)
         else Inl (TypeError ''non-boolean operands cannot be used in logic operations.''))
      else Inl (TypeError ''invalid binary operator.''))"

text \<open>
  Modelled from the spec: \<open>Expr::add_cast\<close> and \<open>Constant::add_cast\<close> (Analyzer.cpp),
  section 3.2 of the specification.  No change when the type is the target already.
  A NULL constant and an integer constant whose value the target integer type holds
  are rewritten in place; every other expression is wrapped in a CAST.
\<close>

definition datum_int :: "Datum \<Rightarrow> int option" where
  "datum_int d =
     (case d of smallintval w \<Rightarrow> Some (sint w) | intval w \<Rightarrow> Some (sint w)
      | bigintval w \<Rightarrow> Some (sint w) | _ \<Rightarrow> None)"

definition int_datum :: "SQLTypes \<Rightarrow> int \<Rightarrow> Datum option" where
  "int_datum t i =
     (if t = kSMALLINT \<and> INT16_MIN \<le> i \<and> i \<le> INT16_MAX then Some (smallintval (word_of_int i))
      else if t = kINT \<and> INT32_MIN \<le> i \<and> i \<le> INT32_MAX then Some (intval (word_of_int i))
      else if t = kBIGINT \<and> - (2 ^ 63) \<le> i \<and> i < 2 ^ 63 then Some (bigintval (word_of_int i))
      else None)"

definition add_cast_spec :: "Analyzer_Expr \<Rightarrow> SQLTypeInfo \<Rightarrow> Analyzer_Expr \<times> Analyzer_Expr" where
  "add_cast_spec e ti =
     (if get_type_info e = ti then (e, e)
      else
        (case e of
           Constant t is_null d \<Rightarrow>
             (if is_null then (Constant ti is_null d, Constant ti is_null d)
              else
                (case Option.bind (datum_int d) (int_datum (type ti)) of
                   Some d2 \<Rightarrow> (Constant ti is_null d2, Constant ti is_null d2)
                 | None \<Rightarrow> (UOper ti kCAST e, e)))
         | _ \<Rightarrow> (UOper ti kCAST e, e)))"

text \<open>
  Modelled from the spec: \<open>RangeTblEntry::get_column_desc\<close> and
  \<open>RangeTblEntry::expand_star_in_targetlist\<close> (Analyzer.cpp).  The descriptor is
  fetched from the catalog through the table of the entry; a star expands into one
  target for each column of the table, in catalog order.
\<close>

definition get_column_desc_spec ::
  "Catalog \<Rightarrow> RangeTblEntry \<Rightarrow> string \<Rightarrow> ColumnDescriptor option"
where
  "get_column_desc_spec cat rte name = getMetadataForColumn cat (get_table_id rte) name"

definition expand_star_spec ::
  "(int \<Rightarrow> ColumnDescriptor list) \<Rightarrow> Catalog \<Rightarrow> RangeTblEntry \<Rightarrow> int \<Rightarrow> TargetEntry list"
where
  "expand_star_spec all_columns cat rte rte_idx =
     map (\<lambda>cd. \<lparr>resname = columnName cd,
                 expr = ColumnVar (columnType cd) (get_table_id rte) (columnId cd) rte_idx
                          (compression cd) (comp_param cd)\<rparr>)
       (all_columns (get_table_id rte))"

text \<open>
  Modelled from the spec: \<open>Expr::check_group_by\<close> (Analyzer.cpp).  An expression
  passes when it is equal to a GROUP BY entry; a column that is not fails; an aggregate
  and a constant pass; any other expression passes when its operands do.
\<close>

fun covered_by :: "Analyzer_Expr list \<Rightarrow> Analyzer_Expr \<Rightarrow> bool" where
  "covered_by gb (Constant ti n d) = True"
| "covered_by gb (ColumnVar ti t c r e p) = (ColumnVar ti t c r e p \<in> set gb)"
| "covered_by gb (UOper ti oper a) = (UOper ti oper a \<in> set gb \<or> covered_by gb a)"
| "covered_by gb (BinOper ti oper q l r) =
     (BinOper ti oper q l r \<in> set gb \<or> (covered_by gb l \<and> covered_by gb r))"
| "covered_by gb (InValuesA ti a vs) =
     (InValuesA ti a vs \<in> set gb \<or> (covered_by gb a \<and> (\<forall>v \<in> set vs. covered_by gb v)))"
| "covered_by gb (LikeExprA ti a l e) =
     (LikeExprA ti a l e \<in> set gb
      \<or> (covered_by gb a \<and> covered_by gb l
          \<and> (case e of None \<Rightarrow> True | Some x \<Rightarrow> covered_by gb x)))"
| "covered_by gb (AggExpr ti g a d) = True"
| "covered_by gb (CaseExprA ti ps e) =
     (CaseExprA ti ps e \<in> set gb
      \<or> ((\<forall>p \<in> set ps. (case p of (w, t) \<Rightarrow> covered_by gb w \<and> covered_by gb t))
          \<and> (case e of None \<Rightarrow> True | Some x \<Rightarrow> covered_by gb x)))"

definition check_group_by_spec ::
  "Analyzer_Expr \<Rightarrow> Analyzer_Expr list option \<Rightarrow> error option"
where
  "check_group_by_spec e groupby =
     (if covered_by (case groupby of None \<Rightarrow> [] | Some gb \<Rightarrow> gb) e then None
      else Some (TypeError
        ''expressions in the SELECT or HAVING clause must be an aggregate or in GROUP BY.''))"

text \<open>
  \<open>std::stoll\<close> in base 10: leading white space is skipped, a sign \<open>+\<close> or \<open>-\<close> may
  follow, then the decimal digits are read up to the first other character.  It throws
  when there is no digit and when the value is not an \<open>int64_t\<close>.
\<close>

definition is_space :: "char \<Rightarrow> bool" where
  "is_space c =
     ((of_char c :: nat) = 32 \<or> (9 \<le> (of_char c :: nat) \<and> (of_char c :: nat) \<le> 13))"

definition is_digit :: "char \<Rightarrow> bool" where
  "is_digit c = (48 \<le> (of_char c :: nat) \<and> (of_char c :: nat) \<le> 57)"

definition digits_value :: "string \<Rightarrow> int" where
  "digits_value ds = foldl (\<lambda>acc c. acc * 10 + (int (of_char c) - 48)) 0 ds"

definition stoll_impl :: "string \<Rightarrow> error + 64 word" where
  "stoll_impl str =
     (let s = dropWhile is_space str;
          neg = (s \<noteq> [] \<and> hd s = CHR ''-'');
          signed = (s \<noteq> [] \<and> (hd s = CHR ''-'' \<or> hd s = CHR ''+''));
          ds = takeWhile is_digit (if signed then tl s else s);
          v = (if neg then - digits_value ds else digits_value ds)
      in if ds = [] then Inl (InternalError ''stoll: invalid argument'')
         else if v < - (2 ^ 63) \<or> 2 ^ 63 \<le> v then Inl (InternalError ''stoll: out of range'')
         else Inr (word_of_int v))"

definition empty_fields :: QueryFields where
  "empty_fields =
     \<lparr>is_distinct = False, targetlist = [], rangetable = [], where_predicate = None,
      group_by = None, having_predicate = None, order_by = None, is_unionall = False,
      stmt_type = kSELECT, num_aggs = 0, result_table_id = 0, result_col_list = [],
      limit = 0, offset = 0\<rparr>"

definition q0 :: Query where
  "q0 = Query empty_fields None"

definition mk_cd :: "int \<Rightarrow> string \<Rightarrow> SQLTypes \<Rightarrow> ColumnDescriptor" where
  "mk_cd cid name t =
     \<lparr>columnId = cid, columnName = name,
      columnType = \<lparr>type = t, dimension = 0, scale = 0, notnull = False\<rparr>,
      compression = kENCODING_NONE, comp_param = 0\<rparr>"

definition mk_td :: "int \<Rightarrow> string \<Rightarrow> nat \<Rightarrow> TableDescriptor" where
  "mk_td tid name n =
     \<lparr>tableId = tid, tableName = name, nColumns = n, isView = False,
      isMaterialized = False, viewSQL = [], checkOption = False, storageOption = kDISK,
      refreshOption = kMANUAL, isReady = True, partitioner = None,
      fragType = INSERT_ORDER, maxFragRows = 8000000, fragPageSize = 1048576\<rparr>"

text \<open>
  The tables \<open>r(a int, b int)\<close> and \<open>s(a int, c int)\<close> of scenario S1, and
  \<open>t(x smallint, y smallint, z int)\<close>.
\<close>

definition cat0_tables :: "TableDescriptor list" where
  "cat0_tables = [mk_td 1 ''r'' 2, mk_td 2 ''s'' 2, mk_td 3 ''t'' 3]"

definition cat0_columns :: "int \<Rightarrow> ColumnDescriptor list" where
  "cat0_columns tid =
     (if tid = 1 then [mk_cd 1 ''a'' kINT, mk_cd 2 ''b'' kINT]
      else if tid = 2 then [mk_cd 1 ''a'' kINT, mk_cd 2 ''c'' kINT]
      else if tid = 3 then [mk_cd 1 ''x'' kSMALLINT, mk_cd 2 ''y'' kSMALLINT, mk_cd 3 ''z'' kINT]
      else [])"

definition cat0 :: Catalog where
  "cat0 =
     \<lparr>currentDB_dbName = ''mapd'',
      currentUser_userId = 0,
      getMetadataForTable = (\<lambda>name. find (\<lambda>td. tableName td = name) cat0_tables),
      getMetadataForColumn = (\<lambda>tid name. find (\<lambda>cd. columnName cd = name) (cat0_columns tid)),
      getMetadataForColumnId = (\<lambda>tid cid. find (\<lambda>cd. columnId cd = cid) (cat0_columns tid)),
      getMetadataForUser = (\<lambda>name. if name = ''mapd'' then Some 0 else None)\<rparr>"

text \<open>The same catalog in a session whose current database is not the system database.\<close>

definition cat_sales :: Catalog where
  "cat_sales = cat0\<lparr>currentDB_dbName := ''sales''\<rparr>"

definition X0 :: externals where
  "X0 =
     \<lparr>analyze_type_info = analyze_type_info_spec,
      common_string_type = common_string_type_spec,
      common_numeric_type = common_numeric_type_spec,
      add_cast = add_cast_spec,
      get_column_desc = get_column_desc_spec,
      expand_star_in_targetlist = expand_star_spec cat0_columns,
      check_group_by = check_group_by_spec,
      default_type_info = \<lparr>type = kNULLT, dimension = 0, scale = 0, notnull = False\<rparr>,
      default_cd = mk_cd 0 [] kNULLT,
      default_td = mk_td 0 [] 0,
      new_Query = q0,
      stoll = stoll_impl,
      MAPD_SYSTEM_DB = ''mapd'',
      DEFAULT_FRAGMENT_SIZE = 8000000,
      DEFAULT_PAGE_SIZE = 1048576\<rparr>"

subsection \<open>Sample statements\<close>

definition ti_plain :: "SQLTypes \<Rightarrow> SQLTypeInfo" where
  "ti_plain t = \<lparr>type = t, dimension = 0, scale = 0, notnull = False\<rparr>"

definition rte_r :: RangeTblEntry where
  "rte_r = \<lparr>rangevar = ''r'', table_desc = mk_td 1 ''r'' 2\<rparr>"

definition rte_s :: RangeTblEntry where
  "rte_s = \<lparr>rangevar = ''s'', table_desc = mk_td 2 ''s'' 2\<rparr>"

definition rte_t :: RangeTblEntry where
  "rte_t = \<lparr>rangevar = ''t'', table_desc = mk_td 3 ''t'' 3\<rparr>"

text \<open>The queries after \<open>FROM t\<close> and after \<open>FROM r, s\<close>.\<close>

definition q_t :: Query where
  "q_t = add_rte rte_t q0"

definition q_r_s :: Query where
  "q_r_s = add_rte rte_s (add_rte rte_r q0)"

definition col_x :: Analyzer_Expr where
  "col_x = ColumnVar (ti_plain kSMALLINT) 3 1 0 kENCODING_NONE 0"

definition col_y :: Analyzer_Expr where
  "col_y = ColumnVar (ti_plain kSMALLINT) 3 2 0 kENCODING_NONE 0"

definition col_z :: Analyzer_Expr where
  "col_z = ColumnVar (ti_plain kINT) 3 3 0 kENCODING_NONE 0"

text \<open>\<open>x BETWEEN y AND z\<close> over \<open>t\<close>, where \<open>x\<close> and \<open>y\<close> are SMALLINT and \<open>z\<close> is INT.\<close>

definition x_between_y_and_z :: Parser_Expr where
  "x_between_y_and_z =
     BetweenExpr False (ColumnRef None (Some ''x'')) (ColumnRef None (Some ''y''))
       (ColumnRef None (Some ''z''))"

text \<open>\<open>SELECT e FROM t ORDER BY ...\<close>.\<close>

definition select_from_t :: "Parser_Expr \<Rightarrow> OrderSpec list \<Rightarrow> SelectStmt" where
  "select_from_t e obs =
     \<lparr>query_expr = QuerySpecE
        \<lparr>qs_is_distinct = False,
         select_clause = Some [\<lparr>select_expr = e, se_alias = None\<rparr>],
         from_clause = [\<lparr>table_name = ''t'', range_var = None\<rparr>],
         where_clause = None, groupby_clause = None, having_clause = None\<rparr>,
      orderby_clause = Some obs,
      sel_limit = 0, sel_offset = 0\<rparr>"

definition order_by_number :: "int \<Rightarrow> OrderSpec" where
  "order_by_number n =
     \<lparr>colno = n, os_column = None, os_is_desc = False, os_nulls_first = False\<rparr>"

definition order_by_name :: "string \<Rightarrow> OrderSpec" where
  "order_by_name c =
     \<lparr>colno = 0, os_column = Some (None, Some c), os_is_desc = False, os_nulls_first = False\<rparr>"

definition order_entry :: "int \<Rightarrow> OrderEntry" where
  "order_entry n = \<lparr>tle_no = n, is_desc = False, nulls_first = False\<rparr>"

text \<open>The analyzed \<open>SELECT 1 FROM t ORDER BY 5\<close>.\<close>

definition q_select_1_order_by_5 :: Query where
  "q_select_1_order_by_5 =
     upd (\<lambda>f. f\<lparr>targetlist := [\<lparr>resname = [],
                      expr = Constant (ti_plain kSMALLINT) False (smallintval 1)\<rparr>],
                 rangetable := [rte_t],
                 order_by := Some [order_entry 5]\<rparr>) q0"

text \<open>The analyzed \<open>SELECT x FROM t ORDER BY x, 7\<close>.\<close>

definition q_select_x_order_by_x :: Query where
  "q_select_x_order_by_x =
     upd (\<lambda>f. f\<lparr>targetlist := [\<lparr>resname = ''x'', expr = col_x\<rparr>],
                 rangetable := [rte_t],
                 order_by := Some [order_entry 1, order_entry 7]\<rparr>) q0"

text \<open>
  \<open>CREATE USER bob (IS_SUPER = 'true')\<close>, \<open>CREATE USER bob (colour = 'red')\<close>,
  \<open>CREATE USER bob (PASSWORD = 'pw')\<close> and \<open>ALTER USER bob (password = 'pw')\<close>.
\<close>

definition create_bob_super :: CreateUserStmt where
  "create_bob_super =
     \<lparr>cu_user_name = ''bob'',
      cu_name_value_list =
        Some [\<lparr>nv_name = ''IS_SUPER'', nv_value = StringLiteral ''true''\<rparr>]\<rparr>"

definition create_bob_colour :: CreateUserStmt where
  "create_bob_colour =
     \<lparr>cu_user_name = ''bob'',
      cu_name_value_list = Some [\<lparr>nv_name = ''colour'', nv_value = StringLiteral ''red''\<rparr>]\<rparr>"

definition create_bob_pw :: CreateUserStmt where
  "create_bob_pw =
     \<lparr>cu_user_name = ''bob'',
      cu_name_value_list = Some [\<lparr>nv_name = ''PASSWORD'', nv_value = StringLiteral ''pw''\<rparr>]\<rparr>"

text \<open>
  \<open>CREATE USER bob (is_super = 1)\<close> and
  \<open>CREATE USER bob (IS_SUPER = 'false', is_super = 'maybe')\<close>.
\<close>

definition create_bob_super_1 :: CreateUserStmt where
  "create_bob_super_1 =
     \<lparr>cu_user_name = ''bob'',
      cu_name_value_list = Some [\<lparr>nv_name = ''is_super'', nv_value = IntLiteral 1\<rparr>]\<rparr>"

definition create_bob_super_maybe :: CreateUserStmt where
  "create_bob_super_maybe =
     \<lparr>cu_user_name = ''bob'',
      cu_name_value_list =
        Some [\<lparr>nv_name = ''IS_SUPER'', nv_value = StringLiteral ''false''\<rparr>,
              \<lparr>nv_name = ''is_super'', nv_value = StringLiteral ''maybe''\<rparr>]\<rparr>"

definition alter_bob :: AlterUserStmt where
  "alter_bob =
     \<lparr>au_user_name = ''bob'',
      au_name_value_list = Some [\<lparr>nv_name = ''password'', nv_value = StringLiteral ''pw''\<rparr>]\<rparr>"

text \<open>\<open>CREATE TABLE u (x INT ENCODING FIXED(bits))\<close>.\<close>

definition create_u_fixed :: "int \<Rightarrow> CreateTableStmt" where
  "create_u_fixed bits =
     \<lparr>ct_table = ''u'',
      table_element_list =
        [ColumnDef ''x'' \<lparr>get_type = kINT, get_param1 = 0, get_param2 = 0\<rparr>
           (Some \<lparr>encoding_name = ''FIXED'', encoding_param = bits\<rparr>) None],
      if_not_exists = False,
      storage_options = None\<rparr>"

subsection \<open>The range of an ORDER BY entry\<close>

text \<open>
  What \<open>SelectStmt::analyze\<close> establishes for the entry \<open>e\<close> that it builds from the
  ORDER BY item \<open>p\<close>, for a target list of length \<open>n\<close>: a name is resolved to a position
  of the target list, a number is taken as it is.
\<close>

definition order_entry_ok :: "nat \<Rightarrow> OrderSpec \<Rightarrow> OrderEntry \<Rightarrow> bool" where
  "order_entry_ok n p e =
     (if colno p = 0 then 1 \<le> tle_no e \<and> tle_no e \<le> int n else tle_no e = colno p)"

section \<open>Properties\<close>

subsection \<open>Auxiliary facts\<close>

lemma type_ti_of [simp]: "type (ti_of X t) = t"
  by (simp add: ti_of_def)

lemma ti_of_neq: "a \<noteq> b \<Longrightarrow> ti_of X a \<noteq> ti_of X b"
  by (metis type_ti_of)

lemma get_set_num_aggs [simp]: "get_num_aggs (set_num_aggs n q) = n"
  by (simp add: get_num_aggs_def set_num_aggs_def upd_def)

lemma get_targetlist_upd_order_by [simp]:
  "get_targetlist (upd (\<lambda>f. f\<lparr>order_by := x\<rparr>) q) = get_targetlist q"
  by (simp add: get_targetlist_def upd_def)

lemma get_order_by_upd_order_by [simp]:
  "get_order_by (upd (\<lambda>f. f\<lparr>order_by := x\<rparr>) q) = x"
  by (simp add: get_order_by_def upd_def)

text \<open>Narrowing a 64-bit value that fits keeps the value.\<close>

lemma sint_ucast_16: "sint (ucast (v :: 64 word) :: 16 word) = signed_take_bit 15 (sint v)"
  by (simp add: sint_uint unsigned_ucast_eq signed_take_bit_take_bit min_def)

lemma sint_ucast_32: "sint (ucast (v :: 64 word) :: 32 word) = signed_take_bit 31 (sint v)"
  by (simp add: sint_uint unsigned_ucast_eq signed_take_bit_take_bit min_def)

text \<open>Strings that compare equal without case have the same length.\<close>

lemma iequals_length: "iequals a b \<Longrightarrow> length a = length b"
  unfolding iequals_def by (rule map_eq_imp_length_eq)

lemma iequals_three_not_count:
  assumes "iequals name ''min'' \<or> iequals name ''max'' \<or> iequals name ''avg''
           \<or> iequals name ''sum''"
  shows "\<not> iequals name ''count''"
  using assms by (auto dest!: iequals_length)

lemma iequals_three_distinct:
  "iequals name ''min'' \<Longrightarrow> \<not> iequals name ''max''"
  "iequals name ''min'' \<Longrightarrow> \<not> iequals name ''avg''"
  "iequals name ''min'' \<Longrightarrow> \<not> iequals name ''sum''"
  "iequals name ''max'' \<Longrightarrow> \<not> iequals name ''avg''"
  "iequals name ''max'' \<Longrightarrow> \<not> iequals name ''sum''"
  "iequals name ''avg'' \<Longrightarrow> \<not> iequals name ''sum''"
  by (auto simp: iequals_def to_upper_def)

lemma iequals_samples:
  "iequals ''IS_SUPER'' ''is_super''" "\<not> iequals ''IS_SUPER'' ''password''"
  "iequals ''true'' ''true''" "\<not> iequals ''colour'' ''password''"
  "\<not> iequals ''colour'' ''is_super''" "iequals ''password'' ''password''"
  "iequals ''PASSWORD'' ''password''" "iequals ''fixed'' ''fixed''"
  "iequals ''sparse'' ''sparse''" "\<not> iequals ''sparse'' ''fixed''"
  "\<not> iequals ''sparse'' ''rl''" "\<not> iequals ''sparse'' ''diff''"
  "\<not> iequals ''sparse'' ''dict''"
  by code_simp+

lemma iequals_aggregate_samples:
  "\<not> iequals ''median'' ''count'' \<and> \<not> iequals ''median'' ''min''
     \<and> \<not> iequals ''median'' ''max'' \<and> \<not> iequals ''median'' ''avg''
     \<and> \<not> iequals ''median'' ''sum''"
  "iequals ''COUNT'' ''count''" "iequals ''Count'' ''count''" "iequals ''min'' ''min''"
  "iequals ''MAX'' ''max''" "iequals ''Avg'' ''avg''" "iequals ''sUm'' ''sum''"
  by code_simp+

subsection \<open>Integer literals\<close>

text \<open>
  Claim C8.  The analysis of an integer literal succeeds, leaves the query unchanged and
  produces a non-null \<open>Constant\<close> of the narrowest of SMALLINT, INT and BIGINT that
  holds the value: SMALLINT for a value in \<open>[-2^15, 2^15 - 1]\<close>, INT for a value outside
  that range and in \<open>[-2^31, 2^31 - 1]\<close>, BIGINT for every other value.  The value of
  the stored datum is the value of the literal.
\<close>

theorem IntLiteral_narrowest_type:
  "\<exists>c. analyze X cat (IntLiteral v) q = Inr (c, q) \<and>
     (if - (2 ^ 15) \<le> sint v \<and> sint v \<le> 2 ^ 15 - 1
        then type (get_type_info c) = kSMALLINT
             \<and> (\<exists>w. c = Constant (ti_of X kSMALLINT) False (smallintval w) \<and> sint w = sint v)
      else if - (2 ^ 31) \<le> sint v \<and> sint v \<le> 2 ^ 31 - 1
        then type (get_type_info c) = kINT
             \<and> (\<exists>w. c = Constant (ti_of X kINT) False (intval w) \<and> sint w = sint v)
      else type (get_type_info c) = kBIGINT
           \<and> c = Constant (ti_of X kBIGINT) False (bigintval v))"
  by (simp add: IntLiteral_analyze_def INT16_MIN_def INT16_MAX_def INT32_MIN_def INT32_MAX_def
        sint_ucast_16 sint_ucast_32 signed_take_bit_int_eq_self)

text \<open>Scenario S2: the literals 1, 40000 and 9999999999.\<close>

theorem IntLiteral_narrowest_type_witness:
  "(\<exists>c. analyze X0 cat0 (IntLiteral 1) q0 = Inr (c, q0) \<and> type (get_type_info c) = kSMALLINT)
   \<and> (\<exists>c. analyze X0 cat0 (IntLiteral 40000) q0 = Inr (c, q0) \<and> type (get_type_info c) = kINT)
   \<and> (\<exists>c. analyze X0 cat0 (IntLiteral 9999999999) q0 = Inr (c, q0)
          \<and> type (get_type_info c) = kBIGINT)"
  using IntLiteral_narrowest_type [of X0 cat0 1 q0]
    IntLiteral_narrowest_type [of X0 cat0 40000 q0]
    IntLiteral_narrowest_type [of X0 cat0 9999999999 q0]
  by simp

subsection \<open>Unary operators\<close>

text \<open>
  Claim C9.  When the operand of a unary \<open>OperExpr\<close> (one without a right operand)
  analyzes successfully, so does the expression: the result is a \<open>UOper\<close> over the
  analyzed operand whose type is the type of the operand, and the query is the one
  that the operand left.  No type is checked: NOT over an operand that is not BOOLEAN
  succeeds with a type that is not BOOLEAN.
\<close>

theorem unary_OperExpr_keeps_operand_type:
  assumes "analyze X cat left q = Inr (left_expr, q1)"
  shows "analyze X cat (OperExpr optype left None) q
           = Inr (UOper (get_type_info left_expr) optype left_expr, q1)
         \<and> get_type_info (UOper (get_type_info left_expr) optype left_expr)
             = get_type_info left_expr
         \<and> (type (get_type_info left_expr) \<noteq> kBOOLEAN \<longrightarrow>
              (\<exists>e q2. analyze X cat (OperExpr kNOT left None) q = Inr (e, q2)
                      \<and> type (get_type_info e) \<noteq> kBOOLEAN))"
  using assms by simp

text \<open>\<open>NOT 1\<close> analyzes to a \<open>UOper\<close> of type SMALLINT.\<close>

theorem unary_OperExpr_keeps_operand_type_witness:
  "analyze X0 cat0 (IntLiteral 1) q0 = Inr (IntLiteral_analyze X0 1, q0)
   \<and> type (get_type_info (IntLiteral_analyze X0 1)) = kSMALLINT
   \<and> analyze X0 cat0 (OperExpr kNOT (IntLiteral 1) None) q0
       = Inr (UOper (get_type_info (IntLiteral_analyze X0 1)) kNOT (IntLiteral_analyze X0 1), q0)
   \<and> (\<exists>e q2. analyze X0 cat0 (OperExpr kNOT (IntLiteral 1) None) q0 = Inr (e, q2)
              \<and> type (get_type_info e) \<noteq> kBOOLEAN)"
proof -
  have a: "analyze X0 cat0 (IntLiteral 1) q0 = Inr (IntLiteral_analyze X0 1, q0)"
    by simp
  have t: "type (get_type_info (IntLiteral_analyze X0 1)) = kSMALLINT"
    by (simp add: IntLiteral_analyze_def INT16_MIN_def INT16_MAX_def)
  then have "type (get_type_info (IntLiteral_analyze X0 1)) \<noteq> kBOOLEAN"
    by simp
  with unary_OperExpr_keeps_operand_type [OF a, of kNOT] t a show ?thesis
    by blast
qed

subsection \<open>Aggregates\<close>

text \<open>
  Claim C7.  \<open>FunctionRef::analyze\<close> compares the name without case against COUNT, MIN,
  MAX, AVG and SUM.  A name that is none of them raises NotSupported.  COUNT has result
  type BIGINT, accepts an absent argument and carries the DISTINCT flag of the parse
  node.  MIN, MAX, AVG and SUM, whose argument analyzes to \<open>arg_expr\<close>, have the type of
  \<open>arg_expr\<close> as result type and the flag false.  In each successful call
  \<open>num_aggs\<close> becomes one more than it is after the analysis of the argument.
\<close>

theorem FunctionRef_analyze_aggregates:
  "(\<not> iequals name ''count'' \<and> \<not> iequals name ''min'' \<and> \<not> iequals name ''max''
      \<and> \<not> iequals name ''avg'' \<and> \<not> iequals name ''sum'' \<longrightarrow>
      analyze X cat (FunctionRef name d arg) q
        = Inl (NotSupported (''invalid function name: '' @ name)))
   \<and> (iequals name ''count'' \<longrightarrow>
        analyze X cat (FunctionRef name d None) q
          = Inr (AggExpr (ti_of X kBIGINT) kCOUNT None d, set_num_aggs (get_num_aggs q + 1) q)
        \<and> type (ti_of X kBIGINT) = kBIGINT
        \<and> get_num_aggs (set_num_aggs (get_num_aggs q + 1) q) = get_num_aggs q + 1)
   \<and> (analyze X cat a q = Inr (arg_expr, q1) \<longrightarrow>
        get_num_aggs (set_num_aggs (get_num_aggs q1 + 1) q1) = get_num_aggs q1 + 1
        \<and> (iequals name ''count'' \<longrightarrow>
             analyze X cat (FunctionRef name d (Some a)) q
               = Inr (AggExpr (ti_of X kBIGINT) kCOUNT (Some arg_expr) d,
                      set_num_aggs (get_num_aggs q1 + 1) q1))
        \<and> (iequals name ''min'' \<longrightarrow>
             analyze X cat (FunctionRef name d (Some a)) q
               = Inr (AggExpr (get_type_info arg_expr) kMIN (Some arg_expr) False,
                      set_num_aggs (get_num_aggs q1 + 1) q1))
        \<and> (iequals name ''max'' \<longrightarrow>
             analyze X cat (FunctionRef name d (Some a)) q
               = Inr (AggExpr (get_type_info arg_expr) kMAX (Some arg_expr) False,
                      set_num_aggs (get_num_aggs q1 + 1) q1))
        \<and> (iequals name ''avg'' \<longrightarrow>
             analyze X cat (FunctionRef name d (Some a)) q
               = Inr (AggExpr (get_type_info arg_expr) kAVG (Some arg_expr) False,
                      set_num_aggs (get_num_aggs q1 + 1) q1))
        \<and> (iequals name ''sum'' \<longrightarrow>
             analyze X cat (FunctionRef name d (Some a)) q
               = Inr (AggExpr (get_type_info arg_expr) kSUM (Some arg_expr) False,
                      set_num_aggs (get_num_aggs q1 + 1) q1)))"
proof (intro conjI impI)
  assume "\<not> iequals name ''count'' \<and> \<not> iequals name ''min'' \<and> \<not> iequals name ''max''
      \<and> \<not> iequals name ''avg'' \<and> \<not> iequals name ''sum''"
  then show "analyze X cat (FunctionRef name d arg) q
        = Inl (NotSupported (''invalid function name: '' @ name))"
    by (cases arg) simp_all
next
  assume "iequals name ''count''"
  then show "analyze X cat (FunctionRef name d None) q
          = Inr (AggExpr (ti_of X kBIGINT) kCOUNT None d, set_num_aggs (get_num_aggs q + 1) q)"
    by (simp add: FunctionRef_finish_def)
next
  assume "analyze X cat a q = Inr (arg_expr, q1)" "iequals name ''count''"
  then show "analyze X cat (FunctionRef name d (Some a)) q
               = Inr (AggExpr (ti_of X kBIGINT) kCOUNT (Some arg_expr) d,
                      set_num_aggs (get_num_aggs q1 + 1) q1)"
    by (simp add: FunctionRef_finish_def)
next
  assume "analyze X cat a q = Inr (arg_expr, q1)" "iequals name ''min''"
  then show "analyze X cat (FunctionRef name d (Some a)) q
               = Inr (AggExpr (get_type_info arg_expr) kMIN (Some arg_expr) False,
                      set_num_aggs (get_num_aggs q1 + 1) q1)"
    using iequals_three_not_count [of name] by (simp add: FunctionRef_finish_def)
next
  assume "analyze X cat a q = Inr (arg_expr, q1)" "iequals name ''max''"
  then show "analyze X cat (FunctionRef name d (Some a)) q
               = Inr (AggExpr (get_type_info arg_expr) kMAX (Some arg_expr) False,
                      set_num_aggs (get_num_aggs q1 + 1) q1)"
    using iequals_three_not_count [of name] iequals_three_distinct [of name]
    by (auto simp add: FunctionRef_finish_def)
next
  assume "analyze X cat a q = Inr (arg_expr, q1)" "iequals name ''avg''"
  then show "analyze X cat (FunctionRef name d (Some a)) q
               = Inr (AggExpr (get_type_info arg_expr) kAVG (Some arg_expr) False,
                      set_num_aggs (get_num_aggs q1 + 1) q1)"
    using iequals_three_not_count [of name] iequals_three_distinct [of name]
    by (auto simp add: FunctionRef_finish_def)
next
  assume "analyze X cat a q = Inr (arg_expr, q1)" "iequals name ''sum''"
  then show "analyze X cat (FunctionRef name d (Some a)) q
               = Inr (AggExpr (get_type_info arg_expr) kSUM (Some arg_expr) False,
                      set_num_aggs (get_num_aggs q1 + 1) q1)"
    using iequals_three_not_count [of name] iequals_three_distinct [of name]
    by (auto simp add: FunctionRef_finish_def)
qed simp_all

text \<open>
  \<open>median(1)\<close> is refused; \<open>COUNT(DISTINCT *)\<close>, \<open>Count(DISTINCT 1)\<close>,
  \<open>min(DISTINCT 1)\<close>, \<open>MAX(DISTINCT 1)\<close>, \<open>Avg(DISTINCT 1)\<close> and \<open>sUm(DISTINCT 1)\<close>
  each raise \<open>num_aggs\<close> from 0 to 1.
\<close>

theorem FunctionRef_analyze_aggregates_witness:
  "analyze X0 cat0 (FunctionRef ''median'' False (Some (IntLiteral 1))) q0
     = Inl (NotSupported ''invalid function name: median'')
   \<and> analyze X0 cat0 (FunctionRef ''COUNT'' True None) q0
       = Inr (AggExpr (ti_of X0 kBIGINT) kCOUNT None True, set_num_aggs 1 q0)
   \<and> analyze X0 cat0 (FunctionRef ''Count'' True (Some (IntLiteral 1))) q0
       = Inr (AggExpr (ti_of X0 kBIGINT) kCOUNT (Some (IntLiteral_analyze X0 1)) True,
              set_num_aggs 1 q0)
   \<and> analyze X0 cat0 (FunctionRef ''min'' True (Some (IntLiteral 1))) q0
       = Inr (AggExpr (ti_of X0 kSMALLINT) kMIN (Some (IntLiteral_analyze X0 1)) False,
              set_num_aggs 1 q0)
   \<and> analyze X0 cat0 (FunctionRef ''MAX'' True (Some (IntLiteral 1))) q0
       = Inr (AggExpr (ti_of X0 kSMALLINT) kMAX (Some (IntLiteral_analyze X0 1)) False,
              set_num_aggs 1 q0)
   \<and> analyze X0 cat0 (FunctionRef ''Avg'' True (Some (IntLiteral 1))) q0
       = Inr (AggExpr (ti_of X0 kSMALLINT) kAVG (Some (IntLiteral_analyze X0 1)) False,
              set_num_aggs 1 q0)
   \<and> analyze X0 cat0 (FunctionRef ''sUm'' True (Some (IntLiteral 1))) q0
       = Inr (AggExpr (ti_of X0 kSMALLINT) kSUM (Some (IntLiteral_analyze X0 1)) False,
              set_num_aggs 1 q0)"
proof -
  have a: "analyze X0 cat0 (IntLiteral 1) q0 = Inr (IntLiteral_analyze X0 1, q0)"
    by simp
  have t: "get_type_info (IntLiteral_analyze X0 1) = ti_of X0 kSMALLINT"
    by (simp add: IntLiteral_analyze_def INT16_MIN_def INT16_MAX_def)
  have n: "get_num_aggs q0 + 1 = 1"
    by (simp add: get_num_aggs_def q0_def empty_fields_def)
  note i = iequals_aggregate_samples
  note th = FunctionRef_analyze_aggregates
      [where X = X0 and cat = cat0 and q = q0 and a = "IntLiteral 1"
         and arg_expr = "IntLiteral_analyze X0 1" and ?q1.0 = q0]
  have 1: "analyze X0 cat0 (FunctionRef ''median'' False (Some (IntLiteral 1))) q0
             = Inl (NotSupported ''invalid function name: median'')"
    using th [where name = "''median''" and d = False and arg = "Some (IntLiteral 1)"] i(1)
    by simp
  have 2: "analyze X0 cat0 (FunctionRef ''COUNT'' True None) q0
             = Inr (AggExpr (ti_of X0 kBIGINT) kCOUNT None True, set_num_aggs 1 q0)"
    using th [where name = "''COUNT''" and d = True] i(2) n by simp
  have 3: "analyze X0 cat0 (FunctionRef ''Count'' True (Some (IntLiteral 1))) q0
       = Inr (AggExpr (ti_of X0 kBIGINT) kCOUNT (Some (IntLiteral_analyze X0 1)) True,
              set_num_aggs 1 q0)"
    using th [where name = "''Count''" and d = True] i(3) n a by simp
  have 4: "analyze X0 cat0 (FunctionRef ''min'' True (Some (IntLiteral 1))) q0
       = Inr (AggExpr (ti_of X0 kSMALLINT) kMIN (Some (IntLiteral_analyze X0 1)) False,
              set_num_aggs 1 q0)"
    using th [where name = "''min''" and d = True] i(4) n a t by simp
  have 5: "analyze X0 cat0 (FunctionRef ''MAX'' True (Some (IntLiteral 1))) q0
       = Inr (AggExpr (ti_of X0 kSMALLINT) kMAX (Some (IntLiteral_analyze X0 1)) False,
              set_num_aggs 1 q0)"
    using th [where name = "''MAX''" and d = True] i(5) n a t by simp
  have 6: "analyze X0 cat0 (FunctionRef ''Avg'' True (Some (IntLiteral 1))) q0
       = Inr (AggExpr (ti_of X0 kSMALLINT) kAVG (Some (IntLiteral_analyze X0 1)) False,
              set_num_aggs 1 q0)"
    using th [where name = "''Avg''" and d = True] i(6) n a t by simp
  have 7: "analyze X0 cat0 (FunctionRef ''sUm'' True (Some (IntLiteral 1))) q0
       = Inr (AggExpr (ti_of X0 kSMALLINT) kSUM (Some (IntLiteral_analyze X0 1)) False,
              set_num_aggs 1 q0)"
    using th [where name = "''sUm''" and d = True] i(7) n a t by simp
  from 1 2 3 4 5 6 7 show ?thesis
    by blast
qed

subsection \<open>CREATE USER: options before permission\<close>

lemma CreateUser_options_ArgError:
  "CreateUser_options nvl passwd is_super = Inl e \<Longrightarrow> \<exists>m. e = ArgError m"
  by (induction nvl passwd is_super rule: CreateUser_options.induct)
     (auto split: if_splits Parser_Expr.splits)

lemma CreateUser_options_no_password:
  "\<forall>p \<in> set nvl. \<not> iequals (nv_name p) ''password'' \<Longrightarrow>
   CreateUser_options nvl passwd is_super = Inr (pw, su) \<Longrightarrow> pw = passwd"
  by (induction nvl passwd is_super rule: CreateUser_options.induct)
     (auto split: if_splits Parser_Expr.splits)

lemma iequals_is_super_not_password:
  "iequals name ''is_super'' \<Longrightarrow> \<not> iequals name ''password''"
  by (auto simp: iequals_def to_upper_def)

text \<open>
  An option with a name that is neither PASSWORD nor IS_SUPER, with a value that is not a
  string literal, or with an IS_SUPER value that is neither TRUE nor FALSE makes the
  option loop throw, wherever it stands in the list.
\<close>

lemma CreateUser_options_bad_option:
  assumes "p \<in> set nvl"
      and "(\<not> iequals (nv_name p) ''password'' \<and> \<not> iequals (nv_name p) ''is_super'')
           \<or> (\<forall>s. nv_value p \<noteq> StringLiteral s)
           \<or> (iequals (nv_name p) ''is_super''
               \<and> (\<exists>s. nv_value p = StringLiteral s \<and> \<not> iequals s ''true''
                       \<and> \<not> iequals s ''false''))"
  shows "\<exists>e. CreateUser_options nvl passwd is_super = Inl e"
  using assms
proof (induction nvl passwd is_super rule: CreateUser_options.induct)
  case (1 passwd is_super)
  then show ?case by simp
next
  case (2 q ps passwd is_super)
  show ?case
  proof (cases "\<exists>e. CreateUser_options (q # ps) passwd is_super = Inl e")
    case True
    then show ?thesis .
  next
    case False
    then obtain r where r: "CreateUser_options (q # ps) passwd is_super = Inr r"
      by (cases "CreateUser_options (q # ps) passwd is_super") auto
    have "p \<noteq> q"
    proof
      assume "p = q"
      with "2.prems"(2) r show False
        by (auto split: if_splits Parser_Expr.splits dest: iequals_is_super_not_password)
    qed
    with "2.prems"(1) have pin: "p \<in> set ps" by simp
    from r "2.IH" pin "2.prems"(2) False show ?thesis
      by (auto split: if_splits Parser_Expr.splits)
  qed
qed

text \<open>A list of valid IS_SUPER options passes the loop and leaves the password empty.\<close>

lemma CreateUser_options_valid_no_password:
  assumes "\<forall>p \<in> set nvl. iequals (nv_name p) ''is_super''
             \<and> (\<exists>s. nv_value p = StringLiteral s \<and> (iequals s ''true'' \<or> iequals s ''false''))"
  shows "\<exists>su. CreateUser_options nvl passwd is_super = Inr (passwd, su)"
  using assms
  by (induction nvl passwd is_super rule: CreateUser_options.induct)
     (auto dest: iequals_is_super_not_password)

lemma iequals_more_samples:
  "iequals ''is_super'' ''is_super''" "\<not> iequals ''is_super'' ''password''"
  "\<not> iequals ''maybe'' ''true''" "\<not> iequals ''maybe'' ''false''"
  "iequals ''false'' ''false''" "\<not> iequals ''false'' ''true''"
  by code_simp+

text \<open>
  Claim C10 as stated fails.  The list of \<open>CREATE USER bob (colour = 'red')\<close> holds no
  PASSWORD option and the current database is not the system database; the error
  raised is the ArgError of the invalid option, not the missing-password error.
\<close>

theorem CreateUser_no_password_counterexample:
  "cu_name_value_list create_bob_colour
     = Some [\<lparr>nv_name = ''colour'', nv_value = StringLiteral ''red''\<rparr>]
   \<and> \<not> iequals ''colour'' ''password''
   \<and> currentDB_dbName cat_sales \<noteq> MAPD_SYSTEM_DB X0
   \<and> CreateUserStmt_execute X0 cat_sales create_bob_colour
       = Inl (ArgError ''Invalid CREATE USER option colour.  Should be PASSWORD or IS_SUPER.'')
   \<and> CreateUserStmt_execute X0 cat_sales create_bob_colour
       \<noteq> Inl (PermissionError ''Must have a password for CREATE USER.'')"
  by (simp add: cat_sales_def cat0_def X0_def CreateUserStmt_execute_def create_bob_colour_def
        iequals_samples)

text \<open>
  Claim C10 as amended.  \<open>CreateUserStmt::execute\<close> validates its option list before it
  looks at the current database.  In every database, a list that holds an option with an
  invalid name, an option whose value is not a string literal, or an IS_SUPER option
  whose value is neither TRUE nor FALSE raises an ArgError.  In every database, a list
  without a PASSWORD option never raises the error of the permission check, and raises
  the missing-password error when all its options are valid.
\<close>

theorem CreateUser_options_before_permission:
  assumes "cu_name_value_list stmt = Some nvl"
  shows "((\<exists>p \<in> set nvl.
             (\<not> iequals (nv_name p) ''password'' \<and> \<not> iequals (nv_name p) ''is_super'')
             \<or> (\<forall>s. nv_value p \<noteq> StringLiteral s)
             \<or> (iequals (nv_name p) ''is_super''
                 \<and> (\<exists>s. nv_value p = StringLiteral s \<and> \<not> iequals s ''true''
                         \<and> \<not> iequals s ''false''))) \<longrightarrow>
            (\<exists>m. CreateUserStmt_execute X cat stmt = Inl (ArgError m)))
         \<and> ((\<forall>p \<in> set nvl. \<not> iequals (nv_name p) ''password'') \<longrightarrow>
              CreateUserStmt_execute X cat stmt
                \<noteq> Inl (PermissionError ''Must be in the system database to create users.'')
              \<and> ((\<forall>p \<in> set nvl. iequals (nv_name p) ''is_super''
                     \<and> (\<exists>s. nv_value p = StringLiteral s
                             \<and> (iequals s ''true'' \<or> iequals s ''false''))) \<longrightarrow>
                   CreateUserStmt_execute X cat stmt
                     = Inl (PermissionError ''Must have a password for CREATE USER.'')))"
proof (intro conjI impI)
  assume "\<exists>p \<in> set nvl.
             (\<not> iequals (nv_name p) ''password'' \<and> \<not> iequals (nv_name p) ''is_super'')
             \<or> (\<forall>s. nv_value p \<noteq> StringLiteral s)
             \<or> (iequals (nv_name p) ''is_super''
                 \<and> (\<exists>s. nv_value p = StringLiteral s \<and> \<not> iequals s ''true''
                         \<and> \<not> iequals s ''false''))"
  then obtain p where "p \<in> set nvl"
    and "(\<not> iequals (nv_name p) ''password'' \<and> \<not> iequals (nv_name p) ''is_super'')
             \<or> (\<forall>s. nv_value p \<noteq> StringLiteral s)
             \<or> (iequals (nv_name p) ''is_super''
                 \<and> (\<exists>s. nv_value p = StringLiteral s \<and> \<not> iequals s ''true''
                         \<and> \<not> iequals s ''false''))"
    by blast
  from CreateUser_options_bad_option [OF this, of "[]" False]
  obtain e where e: "CreateUser_options nvl [] False = Inl e" by blast
  from CreateUser_options_ArgError [OF e] obtain m where "e = ArgError m" by blast
  with e assms show "\<exists>m. CreateUserStmt_execute X cat stmt = Inl (ArgError m)"
    by (simp add: CreateUserStmt_execute_def)
next
  assume np: "\<forall>p \<in> set nvl. \<not> iequals (nv_name p) ''password''"
  show "CreateUserStmt_execute X cat stmt
          \<noteq> Inl (PermissionError ''Must be in the system database to create users.'')"
    using assms np
    by (auto simp: CreateUserStmt_execute_def split: sum.splits
             dest: CreateUser_options_no_password CreateUser_options_ArgError)
next
  assume "\<forall>p \<in> set nvl. iequals (nv_name p) ''is_super''
                     \<and> (\<exists>s. nv_value p = StringLiteral s
                             \<and> (iequals s ''true'' \<or> iequals s ''false''))"
  from CreateUser_options_valid_no_password [OF this, of "[]" False]
  obtain su where "CreateUser_options nvl [] False = Inr ([], su)" by blast
  with assms show "CreateUserStmt_execute X cat stmt
                     = Inl (PermissionError ''Must have a password for CREATE USER.'')"
    by (simp add: CreateUserStmt_execute_def)
qed

text \<open>
  Outside the system database: \<open>IS_SUPER = 'true'\<close> alone raises the missing-password
  error; \<open>colour = 'red'\<close>, \<open>is_super = 1\<close> and \<open>is_super = 'maybe'\<close> after a valid
  option each raise an ArgError.
\<close>

theorem CreateUser_options_before_permission_witness:
  "currentDB_dbName cat_sales \<noteq> MAPD_SYSTEM_DB X0
   \<and> CreateUserStmt_execute X0 cat_sales create_bob_super
       = Inl (PermissionError ''Must have a password for CREATE USER.'')
   \<and> CreateUserStmt_execute X0 cat_sales create_bob_super
       \<noteq> Inl (PermissionError ''Must be in the system database to create users.'')
   \<and> (\<exists>m. CreateUserStmt_execute X0 cat_sales create_bob_colour = Inl (ArgError m))
   \<and> (\<exists>m. CreateUserStmt_execute X0 cat_sales create_bob_super_1 = Inl (ArgError m))
   \<and> (\<exists>m. CreateUserStmt_execute X0 cat_sales create_bob_super_maybe = Inl (ArgError m))"
proof -
  have db: "currentDB_dbName cat_sales \<noteq> MAPD_SYSTEM_DB X0"
    by (simp add: cat_sales_def cat0_def X0_def)
  note th = CreateUser_options_before_permission [where X = X0 and cat = cat_sales]
  have 1: "CreateUserStmt_execute X0 cat_sales create_bob_super
             = Inl (PermissionError ''Must have a password for CREATE USER.'')
           \<and> CreateUserStmt_execute X0 cat_sales create_bob_super
             \<noteq> Inl (PermissionError ''Must be in the system database to create users.'')"
    using th [where stmt = create_bob_super
               and nvl = "[\<lparr>nv_name = ''IS_SUPER'', nv_value = StringLiteral ''true''\<rparr>]"]
    by (simp add: create_bob_super_def iequals_samples)
  have 2: "\<exists>m. CreateUserStmt_execute X0 cat_sales create_bob_colour = Inl (ArgError m)"
    using th [where stmt = create_bob_colour
               and nvl = "[\<lparr>nv_name = ''colour'', nv_value = StringLiteral ''red''\<rparr>]"]
    by (simp add: create_bob_colour_def iequals_samples)
  have 3: "\<exists>m. CreateUserStmt_execute X0 cat_sales create_bob_super_1 = Inl (ArgError m)"
    using th [where stmt = create_bob_super_1
               and nvl = "[\<lparr>nv_name = ''is_super'', nv_value = IntLiteral 1\<rparr>]"]
    by (simp add: create_bob_super_1_def)
  have 4: "\<exists>m. CreateUserStmt_execute X0 cat_sales create_bob_super_maybe = Inl (ArgError m)"
    using th [where stmt = create_bob_super_maybe
               and nvl = "[\<lparr>nv_name = ''IS_SUPER'', nv_value = StringLiteral ''false''\<rparr>,
                           \<lparr>nv_name = ''is_super'', nv_value = StringLiteral ''maybe''\<rparr>]"]
    by (simp add: create_bob_super_maybe_def iequals_more_samples)
  from db 1 2 3 4 show ?thesis by blast
qed

subsection \<open>User and database statements outside the system database\<close>

text \<open>
  Claim C3 as stated fails.  In a session whose current database is not the system
  database, \<open>ALTER USER bob (password = 'pw')\<close> raises nothing and reaches the call of
  \<open>alterUser\<close>, and \<open>CREATE USER bob (colour = 'red')\<close> raises an ArgError, not a
  PermissionError.
\<close>

theorem user_db_ddl_permission_counterexample:
  "currentDB_dbName cat_sales \<noteq> MAPD_SYSTEM_DB X0
   \<and> AlterUserStmt_execute X0 cat_sales alter_bob
       = Inr (Some (alterUser ''bob'' (Some ''pw'') None))
   \<and> CreateUserStmt_execute X0 cat_sales create_bob_colour
       = Inl (ArgError ''Invalid CREATE USER option colour.  Should be PASSWORD or IS_SUPER.'')"
  by (simp add: cat_sales_def cat0_def X0_def AlterUserStmt_execute_def alter_bob_def
        CreateUserStmt_execute_def create_bob_colour_def iequals_samples)

text \<open>
  Claim C3 as amended.  When the current database is not the system database, DROP
  USER, CREATE DATABASE and DROP DATABASE raise PermissionError; CREATE USER raises an
  error, which is that PermissionError when its option list is valid and gives a
  password that is not empty.  In all four statements no call that changes the system
  catalog is made.
\<close>

theorem user_db_ddl_permission:
  assumes "currentDB_dbName cat \<noteq> MAPD_SYSTEM_DB X"
  shows "DropUserStmt_execute X cat user_name
           = Inl (PermissionError ''Must be in the system database to drop users.'')
         \<and> CreateDBStmt_execute X cat cdb
             = Inl (PermissionError ''Must be in the system database to create databases.'')
         \<and> DropDBStmt_execute X cat dbname
             = Inl (PermissionError ''Must be in the system database to drop databases.'')
         \<and> (\<exists>e. CreateUserStmt_execute X cat cu = Inl e)
         \<and> (cu_name_value_list cu = Some nvl
              \<and> CreateUser_options nvl [] False = Inr (passwd, is_super) \<and> passwd \<noteq> [] \<longrightarrow>
              CreateUserStmt_execute X cat cu
                = Inl (PermissionError ''Must be in the system database to create users.''))"
  using assms
  by (auto simp: DropUserStmt_execute_def CreateDBStmt_execute_def DropDBStmt_execute_def
        CreateUserStmt_execute_def split: option.splits sum.splits)

text \<open>
  \<open>DROP USER bob\<close>, \<open>CREATE DATABASE shop\<close>, \<open>DROP DATABASE shop\<close> and
  \<open>CREATE USER bob (PASSWORD = 'pw')\<close> in the database \<open>sales\<close>.
\<close>

theorem user_db_ddl_permission_witness:
  "currentDB_dbName cat_sales \<noteq> MAPD_SYSTEM_DB X0
   \<and> DropUserStmt_execute X0 cat_sales ''bob''
       = Inl (PermissionError ''Must be in the system database to drop users.'')
   \<and> CreateDBStmt_execute X0 cat_sales \<lparr>db_name = ''shop'', db_name_value_list = None\<rparr>
       = Inl (PermissionError ''Must be in the system database to create databases.'')
   \<and> DropDBStmt_execute X0 cat_sales ''shop''
       = Inl (PermissionError ''Must be in the system database to drop databases.'')
   \<and> CreateUserStmt_execute X0 cat_sales create_bob_pw
       = Inl (PermissionError ''Must be in the system database to create users.'')"
proof -
  have db: "currentDB_dbName cat_sales \<noteq> MAPD_SYSTEM_DB X0"
    by (simp add: cat_sales_def cat0_def X0_def)
  have opts: "cu_name_value_list create_bob_pw
                = Some [\<lparr>nv_name = ''PASSWORD'', nv_value = StringLiteral ''pw''\<rparr>]
              \<and> CreateUser_options [\<lparr>nv_name = ''PASSWORD'', nv_value = StringLiteral ''pw''\<rparr>]
                    [] False = Inr (''pw'', False) \<and> ''pw'' \<noteq> []"
    by (simp add: create_bob_pw_def iequals_samples)
  from user_db_ddl_permission
         [OF db, where cu = create_bob_pw and passwd = "''pw''" and is_super = False
            and nvl = "[\<lparr>nv_name = ''PASSWORD'', nv_value = StringLiteral ''pw''\<rparr>]"
            and user_name = "''bob''" and dbname = "''shop''"
            and cdb = "\<lparr>db_name = ''shop'', db_name_value_list = None\<rparr>"]
       db opts
  show ?thesis by blast
qed

subsection \<open>ORDER BY\<close>

lemma find_tle_range:
  "find_tle name tlist n = Some m \<Longrightarrow> n \<le> m \<and> m < n + int (length tlist)"
proof (induction tlist arbitrary: n)
  case Nil
  then show ?case by simp
next
  case (Cons tle tles)
  show ?case
  proof (cases "resname tle = name")
    case True
    with Cons.prems show ?thesis by simp
  next
    case False
    with Cons.prems have "find_tle name tles (n + 1) = Some m" by simp
    from Cons.IH [OF this] show ?thesis by simp
  qed
qed

lemma order_by_entries_ok:
  "order_by_entries tlist obs = Inr es \<Longrightarrow> list_all2 (order_entry_ok (length tlist)) obs es"
proof (induction obs arbitrary: es)
  case Nil
  then show ?case by simp
next
  case (Cons p ps)
  from Cons.prems obtain n rest where
    n: "(if colno p = 0 then
              (case os_column p of
                 None \<Rightarrow> Inl NullPointerDereference
               | Some (table, column) \<Rightarrow>
                   (case column of
                      None \<Rightarrow> Inl NullPointerDereference
                    | Some name \<Rightarrow>
                        (case find_tle name tlist 1 of
                           None \<Rightarrow> Inl (NameError (''invalid name in order by: '' @ name))
                         | Some n \<Rightarrow> Inr n)))
            else Inr (colno p)) = Inr n"
    and rest: "order_by_entries tlist ps = Inr rest"
    and es: "es = \<lparr>tle_no = n, is_desc = os_is_desc p, nulls_first = os_nulls_first p\<rparr> # rest"
    by (auto split: sum.splits)
  have "order_entry_ok (length tlist) p
          \<lparr>tle_no = n, is_desc = os_is_desc p, nulls_first = os_nulls_first p\<rparr>"
    using n
    by (auto simp: order_entry_ok_def split: if_splits option.splits dest!: find_tle_range)
  with Cons.IH [OF rest] es show ?case by simp
qed

text \<open>
  Claim C4 as stated fails.  \<open>SELECT 1 FROM t ORDER BY 5\<close> analyzes successfully; the
  target list has one entry and the ORDER BY entry has \<open>tle_no = 5\<close>.
\<close>

theorem order_by_number_counterexample:
  "SelectStmt_analyze X0 cat0 (select_from_t (IntLiteral 1) [order_by_number 5]) q0
     = Inr q_select_1_order_by_5
   \<and> length (get_targetlist q_select_1_order_by_5) = 1
   \<and> get_order_by q_select_1_order_by_5 = Some [order_entry 5]"
  by code_simp

text \<open>
  Claim C4 as amended.  After a successful analysis of a SELECT statement with an ORDER
  BY clause, \<open>order_by\<close> has one entry for each item of the clause, in order.  The entry
  of an item given as a column name (\<open>colno = 0\<close>) has a \<open>tle_no\<close> between 1 and the
  length of the target list; the entry of an item given as a number has that number as
  its \<open>tle_no\<close>, whatever the number is.
\<close>

theorem SelectStmt_order_by_range:
  assumes "SelectStmt_analyze X cat stmt q = Inr q2"
      and "orderby_clause stmt = Some obs"
  shows "\<exists>es. get_order_by q2 = Some es
              \<and> list_all2 (order_entry_ok (length (get_targetlist q2))) obs es"
  using assms
  by (auto simp: SelectStmt_analyze_def split: sum.splits dest!: order_by_entries_ok)

text \<open>\<open>SELECT x FROM t ORDER BY x, 7\<close>: the name resolves to 1, the number stays 7.\<close>

theorem SelectStmt_order_by_range_witness:
  "SelectStmt_analyze X0 cat0
     (select_from_t (ColumnRef None (Some ''x'')) [order_by_name ''x'', order_by_number 7]) q0
     = Inr q_select_x_order_by_x
   \<and> get_order_by q_select_x_order_by_x = Some [order_entry 1, order_entry 7]
   \<and> length (get_targetlist q_select_x_order_by_x) = 1
   \<and> list_all2 (order_entry_ok 1) [order_by_name ''x'', order_by_number 7]
        [order_entry 1, order_entry 7]"
proof -
  have a: "SelectStmt_analyze X0 cat0
     (select_from_t (ColumnRef None (Some ''x'')) [order_by_name ''x'', order_by_number 7]) q0
     = Inr q_select_x_order_by_x"
    by code_simp
  have b: "orderby_clause
             (select_from_t (ColumnRef None (Some ''x'')) [order_by_name ''x'', order_by_number 7])
           = Some [order_by_name ''x'', order_by_number 7]"
    by (simp add: select_from_t_def)
  have c: "get_order_by q_select_x_order_by_x = Some [order_entry 1, order_entry 7]"
    "length (get_targetlist q_select_x_order_by_x) = 1"
    by (simp_all add: q_select_x_order_by_x_def get_targetlist_def get_order_by_def upd_def)
  from SelectStmt_order_by_range [OF a b] a c show ?thesis
    by simp
qed

subsection \<open>BETWEEN\<close>

text \<open>
  For every implementation of the external members: the operand types of the upper
  predicate come from \<open>analyze_type_info\<close> on the types of \<open>arg_expr\<close> and
  \<open>lower_expr\<close>.  The type of \<open>upper_expr\<close> is not read.
\<close>

lemma BetweenExpr_build_upper_predicate:
  assumes "BetweenExpr_build X False arg_expr lower_expr upper_expr = Inr result"
  shows "\<exists>rt nl nr rt2 nl2 nr2 lower_pred.
           analyze_type_info X kGE (get_type_info arg_expr) (get_type_info lower_expr)
             = Inr (rt, nl, nr)
           \<and> analyze_type_info X kLE (get_type_info (after_cast X arg_expr nl))
                 (get_type_info (after_cast X lower_expr nr)) = Inr (rt2, nl2, nr2)
           \<and> result = BinOper (ti_of X kBOOLEAN) kAND kONE lower_pred
                        (BinOper (ti_of X kBOOLEAN) kLE kONE
                           (cast_to X (after_cast X arg_expr nl) nl2)
                           (cast_to X upper_expr nr2))"
  using assms
  by (auto simp: BetweenExpr_build_def deep_copy_def Let_def split: sum.splits)

text \<open>
  Claim C1, evaluated on \<open>x BETWEEN y AND z\<close> over \<open>t(x smallint, y smallint, z int)\<close>.
  The claim computes the LE coercion between the types of \<open>x\<close> and \<open>z\<close>, which is
  INT for both operands, so that the upper predicate is \<open>CAST(x AS INT) <= z\<close>.  The
  source computes it between the types of \<open>x\<close> and \<open>y\<close>, which is SMALLINT for both,
  and the upper predicate that it builds is \<open>x <= CAST(z AS SMALLINT)\<close>.
\<close>

theorem BetweenExpr_upper_coercion_uses_lower:
  "analyze X0 cat0 x_between_y_and_z q_t
     = Inr (BinOper (ti_plain kBOOLEAN) kAND kONE
              (BinOper (ti_plain kBOOLEAN) kGE kONE col_x col_y)
              (BinOper (ti_plain kBOOLEAN) kLE kONE col_x
                 (UOper (ti_plain kSMALLINT) kCAST col_z)),
            q_t)
   \<and> analyze_type_info X0 kLE (get_type_info col_x) (get_type_info col_y)
       = Inr (ti_plain kBOOLEAN, ti_plain kSMALLINT, ti_plain kSMALLINT)
   \<and> analyze_type_info X0 kLE (get_type_info col_x) (get_type_info col_z)
       = Inr (ti_plain kBOOLEAN, ti_plain kINT, ti_plain kINT)"
  by code_simp

subsection \<open>Unqualified column references\<close>

text \<open>
  The test after the loop reads the descriptor of the last iteration: when the last
  entry of the range table does not contain the column, the analysis raises an error,
  however many earlier entries contain it.
\<close>

lemma ColumnRef_loop_last:
  "ColumnRef_loop X cat col rtes i found cd0 = Inr (f, cd) \<Longrightarrow> rtes \<noteq> [] \<Longrightarrow>
   cd = get_column_desc X cat (last rtes) col"
proof (induction rtes arbitrary: i found cd0)
  case Nil
  then show ?case by simp
next
  case (Cons rte rtes)
  show ?case
  proof (cases "rtes = []")
    case True
    with Cons.prems show ?thesis by (auto simp: Let_def split: if_splits)
  next
    case False
    with Cons.prems Cons.IH show ?thesis
      by (auto simp: Let_def split: if_splits)
  qed
qed

lemma ColumnRef_loop_error:
  "ColumnRef_loop X cat col rtes i found cd0 = Inl e \<Longrightarrow>
   e = AmbiguityError (''Column name '' @ col @ '' is ambiguous.'')"
  by (induction rtes arbitrary: i found cd0) (auto simp: Let_def split: if_splits)

lemma unqualified_ColumnRef_last_entry_decides:
  assumes "get_rangetable q \<noteq> []"
      and "get_column_desc X cat (last (get_rangetable q)) col = None"
  shows "analyze X cat (ColumnRef None (Some col)) q
           = Inl (NameError (''Column name '' @ col @ '' does not exist.''))
         \<or> analyze X cat (ColumnRef None (Some col)) q
             = Inl (AmbiguityError (''Column name '' @ col @ '' is ambiguous.''))"
proof (cases "ColumnRef_loop X cat col (get_rangetable q) 0 None None")
  case (Inl e)
  with assms(1) ColumnRef_loop_error [OF Inl] show ?thesis
    by (simp add: ColumnRef_analyze_def)
next
  case (Inr r)
  obtain f cd where r: "r = (f, cd)" by (cases r)
  with Inr ColumnRef_loop_last [of X cat col "get_rangetable q" 0 None None f cd] assms
  have "cd = None" by simp
  with Inr r assms(1) show ?thesis
    by (simp add: ColumnRef_analyze_def)
qed

text \<open>
  What the loop gets right, for every implementation of \<open>get_column_desc\<close>: two
  or more entries with the column raise AmbiguityError, no entry with the column raises
  NameError, and a column that only the last entry contains is resolved to that entry.
\<close>

lemma ColumnRef_loop_second_hit:
  "found \<noteq> None \<Longrightarrow> \<exists>rte \<in> set rtes. get_column_desc X cat rte col \<noteq> None \<Longrightarrow>
   ColumnRef_loop X cat col rtes i found cd0
     = Inl (AmbiguityError (''Column name '' @ col @ '' is ambiguous.''))"
  by (induction rtes arbitrary: i cd0) (auto simp: Let_def)

lemma ColumnRef_loop_two_hits:
  "2 \<le> length (filter (\<lambda>rte. get_column_desc X cat rte col \<noteq> None) rtes) \<Longrightarrow>
   ColumnRef_loop X cat col rtes i None cd0
     = Inl (AmbiguityError (''Column name '' @ col @ '' is ambiguous.''))"
proof (induction rtes arbitrary: i cd0)
  case Nil
  then show ?case by simp
next
  case (Cons rte rtes)
  show ?case
  proof (cases "get_column_desc X cat rte col = None")
    case True
    with Cons show ?thesis by (simp add: Let_def)
  next
    case False
    with Cons.prems have "1 \<le> length (filter (\<lambda>rte. get_column_desc X cat rte col \<noteq> None) rtes)"
      by simp
    then have "filter (\<lambda>rte. get_column_desc X cat rte col \<noteq> None) rtes \<noteq> []"
      by auto
    then have "\<exists>r \<in> set rtes. get_column_desc X cat r col \<noteq> None"
      by (auto simp: filter_empty_conv)
    with False show ?thesis
      by (simp add: Let_def ColumnRef_loop_second_hit)
  qed
qed

lemma ColumnRef_loop_no_hit:
  "\<forall>rte \<in> set rtes. get_column_desc X cat rte col = None \<Longrightarrow>
   ColumnRef_loop X cat col rtes i found cd0 = Inr (found, if rtes = [] then cd0 else None)"
  by (induction rtes arbitrary: i cd0) (auto simp: Let_def)

lemma ColumnRef_loop_last_hit:
  "\<forall>rte \<in> set pre. get_column_desc X cat rte col = None \<Longrightarrow>
   get_column_desc X cat r col = Some cd \<Longrightarrow>
   ColumnRef_loop X cat col (pre @ [r]) i None cd0
     = Inr (Some (i + int (length pre), get_table_id r), Some cd)"
  by (induction pre arbitrary: i cd0) (auto simp: Let_def)

lemma unqualified_ColumnRef_two_hits:
  assumes "2 \<le> length (filter (\<lambda>rte. get_column_desc X cat rte col \<noteq> None) (get_rangetable q))"
  shows "analyze X cat (ColumnRef None (Some col)) q
           = Inl (AmbiguityError (''Column name '' @ col @ '' is ambiguous.''))"
proof -
  from assms have "get_rangetable q \<noteq> []" by auto
  with ColumnRef_loop_two_hits [OF assms, of 0 None] show ?thesis
    by (simp add: ColumnRef_analyze_def)
qed

lemma unqualified_ColumnRef_no_hit:
  assumes "get_rangetable q \<noteq> []"
      and "\<forall>rte \<in> set (get_rangetable q). get_column_desc X cat rte col = None"
  shows "analyze X cat (ColumnRef None (Some col)) q
           = Inl (NameError (''Column name '' @ col @ '' does not exist.''))"
  using assms ColumnRef_loop_no_hit [OF assms(2), of 0 None None]
  by (simp add: ColumnRef_analyze_def)

lemma unqualified_ColumnRef_last_hit:
  assumes "get_rangetable q = pre @ [r]"
      and "\<forall>rte \<in> set pre. get_column_desc X cat rte col = None"
      and "get_column_desc X cat r col = Some cd"
  shows "analyze X cat (ColumnRef None (Some col)) q
           = Inr (ColumnVar (columnType cd) (get_table_id r) (columnId cd) (int (length pre))
                    (compression cd) (comp_param cd), q)"
  using assms ColumnRef_loop_last_hit [OF assms(2,3), of 0 None]
  by (simp add: ColumnRef_analyze_def)

text \<open>
  Claim C2, evaluated on the column \<open>b\<close> after \<open>FROM r, s\<close> with \<open>r(a, b)\<close> and
  \<open>s(a, c)\<close>.  Exactly one entry of the range table, \<open>r\<close>, contains \<open>b\<close>, so the claim
  yields a \<open>ColumnVar\<close> for \<open>r\<close>.  The source raises the NameError of a column that does
  not exist, because \<open>s\<close>, the last entry, does not contain \<open>b\<close>.  The column \<open>c\<close>, which
  only the last entry contains, is resolved.
\<close>

theorem ColumnRef_single_hit_not_last:
  "filter (\<lambda>rte. get_column_desc X0 cat0 rte ''b'' \<noteq> None) (get_rangetable q_r_s) = [rte_r]
   \<and> analyze X0 cat0 (ColumnRef None (Some ''b'')) q_r_s
       = Inl (NameError ''Column name b does not exist.'')
   \<and> analyze X0 cat0 (ColumnRef None (Some ''c'')) q_r_s
       = Inr (ColumnVar (ti_plain kINT) 2 2 1 kENCODING_NONE 0, q_r_s)"
  by code_simp

subsection \<open>CASE\<close>

text \<open>
  The two reconciliations differ when the running type is NULLT and the arm is not: a
  THEN arm replaces the running type, an ELSE arm raises a TypeError.
\<close>

lemma reconcile_NULLT_running_type:
  assumes "type ti = kNULLT" and "type (get_type_info e) \<noteq> kNULLT"
  shows "reconcile_then X ti e = Inr (get_type_info e, e)"
    and "reconcile_else X ti e
           = Inl (TypeError (''expressions in ELSE clause must be of the same or ''
                    @ ''compatible types as those in the THEN clauses.''))"
  using assms
  by (auto simp: reconcile_then_def reconcile_else_def IS_STRING_def IS_NUMBER_def)

text \<open>
  What holds of every successful analysis of a CASE expression: every WHEN expression is
  BOOLEAN, and every THEN arm and the ELSE arm are cast to the type of the result.
\<close>

lemma when_then_list_success:
  "analyze_when_then_list X cat ps ti q = Inr (ti2, pairs, q2) \<Longrightarrow>
   length pairs = length ps \<and> (\<forall>p \<in> set pairs. type (get_type_info (fst p)) = kBOOLEAN)"
proof (induction ps arbitrary: ti q pairs)
  case Nil
  then show ?case by simp
next
  case (Cons p ps)
  obtain w t where p: "p = (w, t)" by (cases p)
  from Cons.prems p obtain e1 q1 e2 q2a ti1 e2a rest where
    "analyze X cat w q = Inr (e1, q1)" "type (get_type_info e1) = kBOOLEAN"
    "analyze X cat t q1 = Inr (e2, q2a)" "reconcile_then X ti e2 = Inr (ti1, e2a)"
    "analyze_when_then_list X cat ps ti1 q2a = Inr (ti2, rest, q2)"
    "pairs = (e1, e2a) # rest"
    by (auto split: sum.splits if_splits)
  with Cons.IH [of ti1 q2a rest] show ?case by simp
qed

lemma CaseExpr_success_shape:
  assumes "analyze X cat (CaseExpr when_then_list else_expr) q = Inr (r, q2)"
  shows "\<exists>ti pairs else_e.
           r = CaseExprA ti (map (\<lambda>p. (fst p, cast_to X (snd p) ti)) pairs)
                 (map_option (\<lambda>e. cast_to X e ti) else_e)
           \<and> length pairs = length when_then_list
           \<and> (\<forall>p \<in> set pairs. type (get_type_info (fst p)) = kBOOLEAN)
           \<and> (else_e = None) = (else_expr = None)"
proof (cases else_expr)
  case None
  with assms obtain ti pairs where
    l: "analyze_when_then_list X cat when_then_list (ti_of X kNULLT) q = Inr (ti, pairs, q2)"
    and r: "r = CaseExpr_finish X ti pairs None"
    by (auto split: sum.splits)
  from when_then_list_success [OF l] r None show ?thesis
    unfolding CaseExpr_finish_def by (intro exI [of _ ti] exI [of _ pairs] exI [of _ None]) simp
next
  case (Some el)
  with assms obtain ti pairs q1 else_e ti2 else_e2 where
    l: "analyze_when_then_list X cat when_then_list (ti_of X kNULLT) q = Inr (ti, pairs, q1)"
    and "analyze X cat el q1 = Inr (else_e, q2)"
    and "reconcile_else X ti else_e = Inr (ti2, else_e2)"
    and r: "r = CaseExpr_finish X ti2 pairs (Some else_e2)"
    by (auto split: sum.splits)
  from when_then_list_success [OF l] r Some show ?thesis
    unfolding CaseExpr_finish_def
    by (intro exI [of _ ti2] exI [of _ pairs] exI [of _ "Some else_e2"]) simp
qed

text \<open>
  Claim C5, evaluated on \<open>CASE WHEN NULL IS NULL THEN NULL ELSE 1 END\<close>.  By the claim
  the running type is NULLT after the THEN arm and is replaced by SMALLINT, the type of
  the ELSE arm.  The source raises a TypeError, for every implementation of the external
  members.  With the same two arms as THEN arms,
  \<open>CASE WHEN NULL IS NULL THEN NULL WHEN NULL IS NULL THEN 1 END\<close>, the analysis
  succeeds with type SMALLINT.
\<close>

theorem CaseExpr_null_then_typed_else:
  "analyze X cat (CaseExpr [(IsNullExpr False NullLiteral, NullLiteral)] (Some (IntLiteral 1))) q
     = Inl (TypeError (''expressions in ELSE clause must be of the same or ''
              @ ''compatible types as those in the THEN clauses.''))
   \<and> (\<exists>r. analyze X cat (CaseExpr [(IsNullExpr False NullLiteral, NullLiteral),
                                     (IsNullExpr False NullLiteral, IntLiteral 1)] None) q
            = Inr r \<and> type (get_type_info (fst r)) = kSMALLINT)"
  by (simp add: IsNullExpr_build_def NullLiteral_analyze_def IntLiteral_analyze_def
        reconcile_then_def reconcile_else_def ti_of_neq INT16_MIN_def INT16_MAX_def
        IS_STRING_def IS_NUMBER_def CaseExpr_finish_def)

subsection \<open>Column encodings of CREATE TABLE\<close>

text \<open>
  The test on the bit parameter of FIXED and SPARSE accepts exactly 8, 16, 24, 32, 40 and
  48 among the parameters that are not negative, and every negative multiple of 8.
\<close>

lemma encoding_bits_accepted_nonneg:
  assumes "0 \<le> (p :: int)"
  shows "(\<not> (p = 0 \<or> p smod 8 \<noteq> 0 \<or> p > 48)) = (p \<in> {8, 16, 24, 32, 40, 48})"
proof -
  have "p smod 8 = p mod 8" using assms by (simp add: signed_modulo_int_def sgn_if)
  then show ?thesis using assms by auto
qed

lemma encoding_bits_accepted_negative:
  assumes "(p :: int) < 0"
  shows "(\<not> (p = 0 \<or> p smod 8 \<noteq> 0 \<or> p > 48)) = (8 dvd p)"
proof -
  have "p smod 8 = - ((- p) mod 8)" using assms by (simp add: signed_modulo_int_def sgn_if)
  moreover have "((- p) mod 8 = 0) = (8 dvd p)" by presburger
  ultimately show ?thesis using assms by auto
qed

text \<open>
  The column descriptor of a FIXED or SPARSE clause whose parameter is not negative,
  as claim C6 states it.
\<close>

lemma encoding_clause_nonneg_bits:
  assumes "0 \<le> p"
  shows "iequals enc ''fixed'' \<Longrightarrow>
           column_descriptor X
             (ColumnDef name t (Some \<lparr>encoding_name = enc, encoding_param = p\<rparr>) cc)
           = (if p \<in> {8, 16, 24, 32, 40, 48}
              then Inr ((default_cd X)
                     \<lparr>columnName := name,
                      columnType := \<lparr>type = get_type t, dimension = get_param1 t,
                                     scale = get_param2 t,
                                     notnull = (case cc of None \<Rightarrow> False
                                                | Some c \<Rightarrow> get_notnull c)\<rparr>,
                      compression := kENCODING_FIXED, comp_param := p\<rparr>)
              else Inl (ArgError (''Must specify number of bits as 8, 16, 24, 32 ''
                     @ ''or 48 as the parameter to fixed-bits encoding.'')))"
    and "iequals enc ''sparse'' \<Longrightarrow>
           \<exists>r. column_descriptor X
                  (ColumnDef name t (Some \<lparr>encoding_name = enc, encoding_param = p\<rparr>) cc) = r
              \<and> ((case cc of None \<Rightarrow> False | Some c \<Rightarrow> get_notnull c)
                    \<or> p \<notin> {8, 16, 24, 32, 40, 48} \<longrightarrow> (\<exists>m. r = Inl (ArgError m)))
              \<and> (\<not> (case cc of None \<Rightarrow> False | Some c \<Rightarrow> get_notnull c)
                    \<and> p \<in> {8, 16, 24, 32, 40, 48} \<longrightarrow>
                    (\<exists>cd. r = Inr cd \<and> compression cd = kENCODING_SPARSE \<and> comp_param cd = p))"
proof -
  note acc = encoding_bits_accepted_nonneg [OF assms]
  show "iequals enc ''fixed'' \<Longrightarrow>
           column_descriptor X
             (ColumnDef name t (Some \<lparr>encoding_name = enc, encoding_param = p\<rparr>) cc)
           = (if p \<in> {8, 16, 24, 32, 40, 48}
              then Inr ((default_cd X)
                     \<lparr>columnName := name,
                      columnType := \<lparr>type = get_type t, dimension = get_param1 t,
                                     scale = get_param2 t,
                                     notnull = (case cc of None \<Rightarrow> False
                                                | Some c \<Rightarrow> get_notnull c)\<rparr>,
                      compression := kENCODING_FIXED, comp_param := p\<rparr>)
              else Inl (ArgError (''Must specify number of bits as 8, 16, 24, 32 ''
                     @ ''or 48 as the parameter to fixed-bits encoding.'')))"
    using acc by (auto simp: column_descriptor_def Let_def)
  assume sp: "iequals enc ''sparse''"
  then have ne: "\<not> iequals enc ''fixed''" "\<not> iequals enc ''rl''" "\<not> iequals enc ''diff''"
    "\<not> iequals enc ''dict''"
    by (auto dest!: iequals_length)
  show "\<exists>r. column_descriptor X
                  (ColumnDef name t (Some \<lparr>encoding_name = enc, encoding_param = p\<rparr>) cc) = r
              \<and> ((case cc of None \<Rightarrow> False | Some c \<Rightarrow> get_notnull c)
                    \<or> p \<notin> {8, 16, 24, 32, 40, 48} \<longrightarrow> (\<exists>m. r = Inl (ArgError m)))
              \<and> (\<not> (case cc of None \<Rightarrow> False | Some c \<Rightarrow> get_notnull c)
                    \<and> p \<in> {8, 16, 24, 32, 40, 48} \<longrightarrow>
                    (\<exists>cd. r = Inr cd \<and> compression cd = kENCODING_SPARSE \<and> comp_param cd = p))"
    using acc sp ne by (auto simp: column_descriptor_def Let_def)
qed

text \<open>
  Claim C6, evaluated on \<open>CREATE TABLE u (x INT ENCODING FIXED(-8))\<close>.  By the claim
  \<open>execute\<close> raises an ArgError, since -8 is none of 8, 16, 24, 32, 40 and 48.  The
  source creates the table with a FIXED column whose \<open>comp_param\<close> is -8: -8 is not 0,
  \<open>-8 % 8\<close> is 0 and -8 is not greater than 48.  Scenario S6, with the parameters 9 and
  16, is as the claim states it.
\<close>

theorem fixed_encoding_accepts_negative_bits:
  "CreateTableStmt_execute X0 cat0 (create_u_fixed (- 8))
     = Inr (Some (createTable (mk_td 0 ''u'' 1)
                    [(mk_cd 0 ''x'' kINT)\<lparr>compression := kENCODING_FIXED, comp_param := - 8\<rparr>]))
   \<and> CreateTableStmt_execute X0 cat0 (create_u_fixed 9)
       = Inl (ArgError (''Must specify number of bits as 8, 16, 24, 32 ''
                @ ''or 48 as the parameter to fixed-bits encoding.''))
   \<and> CreateTableStmt_execute X0 cat0 (create_u_fixed 16)
       = Inr (Some (createTable (mk_td 0 ''u'' 1)
                      [(mk_cd 0 ''x'' kINT)\<lparr>compression := kENCODING_FIXED, comp_param := 16\<rparr>]))"
  by code_simp

end
